theory Spec2Isabelle
  imports Complex_Main "HOL-Library.Word"
begin

text \<open>
  A shallow embedding of the sales analysis of \<open>go-sales-analysis\<close>
  (\<open>internal/analyzer\<close>): \<open>ParseCSV\<close>, which reads a CSV file of sales into
  records and skips the rows it cannot use, and \<open>AnalyzeData\<close>, which adds up the
  revenue and finds the product with the largest total quantity.
\<close>

section \<open>Data model\<close>

text \<open>
  Go's \<open>int\<close> is a two's complement machine integer; on the 64-bit targets it has
  64 bits. Addition wraps around and comparisons are signed (\<open><s\<close>, read through
  \<open>sint\<close>).
\<close>

type_synonym go_int = "64 word"

text \<open>
  \<open>float64\<close> values are kept abstract (the type variable \<open>'f\<close>). The constant
  \<open>0.0\<close> and the three operations the analysis applies to them (addition,
  multiplication, the conversion \<open>float64(n)\<close> of an \<open>int\<close>) are passed in as a
  record, so every theorem below holds for IEEE-754 arithmetic as for any other
  interpretation, whether or not the product is rounded before it is added.
\<close>

record 'f float64_ops =
  fzero :: 'f
  fadd :: "'f \<Rightarrow> 'f \<Rightarrow> 'f"
  fmul :: "'f \<Rightarrow> 'f \<Rightarrow> 'f"
  float64 :: "go_int \<Rightarrow> 'f"

record 'f SaleRecord =
  Date :: string
  Product :: string
  Quantity :: go_int
  Price :: 'f

record 'f AnalysisResult =
  TotalTransactions :: go_int
  TotalRevenue :: 'f
  MostPopularProduct :: string
  MaxQuantitySoldUnits :: go_int

section \<open>AnalyzeData\<close>

text \<open>
  Reading \<open>productQuantities[k]\<close> for a key that is not in the map gives the zero
  value of \<open>int\<close>.
\<close>

definition lookup0 :: "(string \<rightharpoonup> go_int) \<Rightarrow> string \<Rightarrow> go_int" where
  "lookup0 m k = (case m k of None \<Rightarrow> 0 | Some v \<Rightarrow> v)"

text \<open>
  The body of the first loop: \<open>result.TotalRevenue += float64(record.Quantity) *
  record.Price\<close> and \<open>productQuantities[record.Product] += record.Quantity\<close>. The
  loop state is the result under construction and the map.
\<close>

definition accumulate ::
  "'f float64_ops \<Rightarrow> 'f AnalysisResult \<times> (string \<rightharpoonup> go_int) \<Rightarrow> 'f SaleRecord
    \<Rightarrow> 'f AnalysisResult \<times> (string \<rightharpoonup> go_int)" where
  "accumulate ops st record =
     (case st of (result, productQuantities) \<Rightarrow>
        (result\<lparr>TotalRevenue :=
            fadd ops (TotalRevenue result)
              (fmul ops (float64 ops (Quantity record)) (Price record))\<rparr>,
         productQuantities(Product record \<mapsto>
            lookup0 productQuantities (Product record) + Quantity record)))"

text \<open>
  The state after the first loop, started from the result literal
  \<open>AnalysisResult{TotalTransactions: len(records), TotalRevenue: 0.0,
  MaxQuantitySoldUnits: 0}\<close> (the field \<open>MostPopularProduct\<close> is not named there, so
  it is the empty string) and the empty map.
\<close>

definition aggregate ::
  "'f float64_ops \<Rightarrow> 'f SaleRecord list \<Rightarrow> 'f AnalysisResult \<times> (string \<rightharpoonup> go_int)" where
  "aggregate ops records =
     foldl (accumulate ops)
       (\<lparr>TotalTransactions = of_nat (length records), TotalRevenue = fzero ops,
         MostPopularProduct = [], MaxQuantitySoldUnits = 0\<rparr>, Map.empty)
       records"

text \<open>
  The body of the second loop, for the key \<open>product\<close> that the \<open>range\<close> hands
  out together with its value \<open>totalQuantity\<close>. A key outside the map is never handed
  out; the model leaves the result alone there.
\<close>

definition select_max ::
  "(string \<rightharpoonup> go_int) \<Rightarrow> 'f AnalysisResult \<Rightarrow> string \<Rightarrow> 'f AnalysisResult" where
  "select_max productQuantities result product =
     (case productQuantities product of
        None \<Rightarrow> result
      | Some totalQuantity \<Rightarrow>
          if MaxQuantitySoldUnits result <s totalQuantity
          then result\<lparr>MaxQuantitySoldUnits := totalQuantity, MostPopularProduct := product\<rparr>
          else result)"

text \<open>
  Go leaves the order in which \<open>range\<close> visits a map unspecified, and it differs from
  run to run. The order is therefore an argument of the model: \<open>visit\<close> lists the keys
  as one run meets them. \<open>range_order m visit\<close> says that \<open>visit\<close> is such an order
  for the map \<open>m\<close>: every key of \<open>m\<close>, once.
\<close>

definition range_order :: "(string \<rightharpoonup> go_int) \<Rightarrow> string list \<Rightarrow> bool" where
  "range_order m visit \<longleftrightarrow> distinct visit \<and> set visit = dom m"

definition AnalyzeData ::
  "'f float64_ops \<Rightarrow> string list \<Rightarrow> 'f SaleRecord list \<Rightarrow> 'f AnalysisResult" where
  "AnalyzeData ops visit records =
     (case aggregate ops records of
        (result, productQuantities) \<Rightarrow> foldl (select_max productQuantities) result visit)"

section \<open>ParseCSV\<close>

text \<open>
  The file system and the CSV reader are outside the repository. A file is modelled by
  what \<open>csv.Reader.Read\<close> returns on it, call after call: a row of fields, or an
  error other than \<open>io.EOF\<close> (with its message). When the list is used up, \<open>Read\<close>
  returns \<open>io.EOF\<close>, and keeps doing so. \<open>os.Open\<close> either fails with a message or
  gives such a reader. \<open>FieldsPerRecord = -1\<close> lets rows of any length through.
\<close>

datatype read_result = Row "string list" | ReadError string

datatype open_result = OpenError string | Opened "read_result list"

text \<open>
  The three errors \<open>ParseCSV\<close> builds with \<open>fmt.Errorf\<close>: for the file that does not
  open (path and cause), for the header (cause), for a data line (line number and cause).
\<close>

datatype error =
    ErrOpen string string
  | ErrHeader string
  | ErrLine go_int string

text \<open>The three warnings it prints, each with the line number.\<close>

datatype warning =
    WrongFieldCount go_int nat
  | BadQuantity go_int string
  | BadPrice go_int string

text \<open>
  \<open>ParseCSV\<close> returns the pair \<open>([]SaleRecord, error)\<close>; \<open>nil\<close> is the empty
  list for the slice and \<open>None\<close> for the error. What it printed on the way is kept
  beside the pair.
\<close>

record 'f ParseCSV_result =
  returned :: "'f SaleRecord list \<times> error option"
  printed :: "warning list"

text \<open>
  The loop over the data rows. Its state is \<open>lineNumber\<close>, the slice \<open>records\<close>,
  the output so far and the reader. \<open>strconv.Atoi\<close> and \<open>strconv.ParseFloat\<close> are
  arguments: \<open>None\<close> stands for a returned error. First equation: \<open>io.EOF\<close>, the
  loop breaks and \<open>records, nil\<close> is returned. Second: any other error,
  \<open>nil\<close> and the error are returned. Third: a row, with the three checks in the
  order of the source, each \<open>continue\<close> going to the next line.
\<close>

fun scan_rows ::
  "(string \<Rightarrow> go_int option) \<Rightarrow> (string \<Rightarrow> 'f option) \<Rightarrow> go_int \<Rightarrow> 'f SaleRecord list
    \<Rightarrow> warning list \<Rightarrow> read_result list \<Rightarrow> 'f ParseCSV_result" where
  "scan_rows Atoi ParseFloat lineNumber records out [] =
     \<lparr>returned = (records, None), printed = out\<rparr>"
| "scan_rows Atoi ParseFloat lineNumber records out (ReadError e # reader) =
     \<lparr>returned = ([], Some (ErrLine lineNumber e)), printed = out\<rparr>"
| "scan_rows Atoi ParseFloat lineNumber records out (Row row # reader) =
     (if length row \<noteq> 4 then
        scan_rows Atoi ParseFloat (lineNumber + 1) records
          (out @ [WrongFieldCount lineNumber (length row)]) reader
      else
        case Atoi (row ! 2) of
          None \<Rightarrow>
            scan_rows Atoi ParseFloat (lineNumber + 1) records
              (out @ [BadQuantity lineNumber (row ! 2)]) reader
        | Some quantity \<Rightarrow>
            (case ParseFloat (row ! 3) of
               None \<Rightarrow>
                 scan_rows Atoi ParseFloat (lineNumber + 1) records
                   (out @ [BadPrice lineNumber (row ! 3)]) reader
             | Some price \<Rightarrow>
                 scan_rows Atoi ParseFloat (lineNumber + 1)
                   (records @ [\<lparr>Date = row ! 0, Product = row ! 1,
                                 Quantity = quantity, Price = price\<rparr>])
                   out reader))"

text \<open>
  \<open>ParseCSV\<close>: open the file, read the header and drop it, scan from line 2. A
  header read that fails with anything but \<open>io.EOF\<close> is an error; on \<open>io.EOF\<close>
  the function goes on to the loop, whose first read meets the end again.
\<close>

definition ParseCSV ::
  "(string \<Rightarrow> open_result) \<Rightarrow> (string \<Rightarrow> go_int option) \<Rightarrow> (string \<Rightarrow> 'f option) \<Rightarrow> string
    \<Rightarrow> 'f ParseCSV_result" where
  "ParseCSV os_Open Atoi ParseFloat filePath =
     (case os_Open filePath of
        OpenError e \<Rightarrow> \<lparr>returned = ([], Some (ErrOpen filePath e)), printed = []\<rparr>
      | Opened reader \<Rightarrow>
          (case reader of
             [] \<Rightarrow> scan_rows Atoi ParseFloat 2 [] [] []
           | ReadError e # _ \<Rightarrow> \<lparr>returned = ([], Some (ErrHeader e)), printed = []\<rparr>
           | Row header # rest \<Rightarrow> scan_rows Atoi ParseFloat 2 [] [] rest))"

section \<open>The specification's notions\<close>

text \<open>
  The per-product totals as the specification words them: the sum of the quantities of
  the records that carry the key, and the keys that occur in the input. The sum is
  formed in \<open>int\<close>, as the program forms it, so it wraps around at 64 bits. The
  maximum of the totals is taken over their signed values.
\<close>

definition summed_quantity :: "'f SaleRecord list \<Rightarrow> string \<Rightarrow> go_int" where
  "summed_quantity records k = sum_list (map Quantity (filter (\<lambda>r. Product r = k) records))"

definition product_keys :: "'f SaleRecord list \<Rightarrow> string set" where
  "product_keys records = Product ` set records"

definition max_summed_quantity :: "'f SaleRecord list \<Rightarrow> int" where
  "max_summed_quantity records =
     Max ((\<lambda>k. sint (summed_quantity records k)) ` product_keys records)"

text \<open>
  The same sum taken over the integers, where nothing wraps around, and the range of
  \<open>int\<close>. The two sums agree when the second lies in that range.
\<close>

definition exact_quantity :: "'f SaleRecord list \<Rightarrow> string \<Rightarrow> int" where
  "exact_quantity records k = (\<Sum>r\<leftarrow>filter (\<lambda>r. Product r = k) records. sint (Quantity r))"

definition fits_int :: "int \<Rightarrow> bool" where
  "fits_int n \<longleftrightarrow> - (2 ^ 63) \<le> n \<and> n < 2 ^ 63"

text \<open>
  The revenue as the specification words it: each record contributes
  \<open>quantity \<times> price\<close>, and the contributions are added from left to right, in input
  order, starting at \<open>0.0\<close>.
\<close>

definition contribution :: "'f float64_ops \<Rightarrow> 'f SaleRecord \<Rightarrow> 'f" where
  "contribution ops r = fmul ops (float64 ops (Quantity r)) (Price r)"

definition revenue_sum :: "'f float64_ops \<Rightarrow> 'f SaleRecord list \<Rightarrow> 'f" where
  "revenue_sum ops records = foldl (\<lambda>acc r. fadd ops acc (contribution ops r)) (fzero ops) records"

text \<open>
  A row passes the three checks when it has four fields, the third parses as an integer
  and the fourth as a floating-point number; the record of such a row; and the records
  of the rows of a file that pass, in the order of the file.
\<close>

definition row_valid ::
  "(string \<Rightarrow> go_int option) \<Rightarrow> (string \<Rightarrow> 'f option) \<Rightarrow> string list \<Rightarrow> bool" where
  "row_valid Atoi ParseFloat row \<longleftrightarrow>
     length row = 4 \<and> Atoi (row ! 2) \<noteq> None \<and> ParseFloat (row ! 3) \<noteq> None"

definition row_record ::
  "(string \<Rightarrow> go_int option) \<Rightarrow> (string \<Rightarrow> 'f option) \<Rightarrow> string list \<Rightarrow> 'f SaleRecord" where
  "row_record Atoi ParseFloat row =
     \<lparr>Date = row ! 0, Product = row ! 1, Quantity = the (Atoi (row ! 2)),
      Price = the (ParseFloat (row ! 3))\<rparr>"

definition valid_records ::
  "(string \<Rightarrow> go_int option) \<Rightarrow> (string \<Rightarrow> 'f option) \<Rightarrow> string list list
    \<Rightarrow> 'f SaleRecord list" where
  "valid_records Atoi ParseFloat rows =
     map (row_record Atoi ParseFloat) (filter (row_valid Atoi ParseFloat) rows)"

text \<open>A reader fails when one of its reads is an error other than \<open>io.EOF\<close>.\<close>

fun is_ReadError :: "read_result \<Rightarrow> bool" where
  "is_ReadError (ReadError e) = True"
| "is_ReadError (Row row) = False"

definition read_fails :: "read_result list \<Rightarrow> bool" where
  "read_fails reader \<longleftrightarrow> list_ex is_ReadError reader"

section \<open>Worked inputs\<close>

subsection \<open>An arithmetic to run the model with\<close>

text \<open>
  The worked examples need some interpretation of \<open>float64\<close>. This one has the finite
  values as rationals, the two infinities (\<open>Inf True\<close> is the negative one) and
  not-a-number, with the special values combined as IEEE-754 combines them. It does not
  round and has no negative zero. The theorems are stated for every interpretation; only
  the worked examples use this one.
\<close>

datatype xfloat = Fin rat | Inf bool | NaN

fun xadd :: "xfloat \<Rightarrow> xfloat \<Rightarrow> xfloat" where
  "xadd NaN _ = NaN"
| "xadd _ NaN = NaN"
| "xadd (Fin a) (Fin b) = Fin (a + b)"
| "xadd (Fin a) (Inf s) = Inf s"
| "xadd (Inf s) (Fin b) = Inf s"
| "xadd (Inf s) (Inf t) = (if s = t then Inf s else NaN)"

fun xmul :: "xfloat \<Rightarrow> xfloat \<Rightarrow> xfloat" where
  "xmul NaN _ = NaN"
| "xmul _ NaN = NaN"
| "xmul (Fin a) (Fin b) = Fin (a * b)"
| "xmul (Fin a) (Inf s) = (if a = 0 then NaN else Inf (s \<noteq> (a < 0)))"
| "xmul (Inf s) (Fin b) = (if b = 0 then NaN else Inf (s \<noteq> (b < 0)))"
| "xmul (Inf s) (Inf t) = Inf (s \<noteq> t)"

definition xops :: "xfloat float64_ops" where
  "xops = \<lparr>fzero = Fin 0, fadd = xadd, fmul = xmul, float64 = (\<lambda>n. Fin (of_int (sint n)))\<rparr>"

subsection \<open>Parsers to run the model with\<close>

text \<open>
  Stand-ins for \<open>strconv.Atoi\<close> and \<open>strconv.ParseFloat\<close>, enough for the files of
  the repository's tests: decimal integers with an optional sign, within the range of
  \<open>int\<close>; and for the prices the spellings \<open>NaN\<close>, \<open>Inf\<close>, \<open>+Inf\<close>,
  \<open>-Inf\<close> and fixed-point decimals with an optional sign. The theorems hold for
  every pair of parsers.
\<close>

definition digit :: "char \<Rightarrow> int option" where
  "digit c = (let n = of_char c in if 48 \<le> n \<and> n \<le> (57::int) then Some (n - 48) else None)"

fun digits :: "int \<Rightarrow> string \<Rightarrow> int option" where
  "digits acc [] = Some acc"
| "digits acc (c # cs) =
     (case digit c of None \<Rightarrow> None | Some d \<Rightarrow> digits (10 * acc + d) cs)"

definition in_int_range :: "bool \<Rightarrow> int \<Rightarrow> go_int option" where
  "in_int_range neg n =
     (if neg then (if n \<le> 2 ^ 63 then Some (- of_int n) else None)
      else (if n < 2 ^ 63 then Some (of_int n) else None))"

definition is_negative :: "string \<Rightarrow> bool" where
  "is_negative s \<longleftrightarrow> s \<noteq> [] \<and> hd s = CHR ''-''"

definition unsigned :: "string \<Rightarrow> string" where
  "unsigned s = (if s \<noteq> [] \<and> (hd s = CHR ''-'' \<or> hd s = CHR ''+'') then tl s else s)"

definition Atoi10 :: "string \<Rightarrow> go_int option" where
  "Atoi10 s =
     (if unsigned s = [] then None
      else case digits 0 (unsigned s) of
             None \<Rightarrow> None
           | Some n \<Rightarrow> in_int_range (is_negative s) n)"

definition fixed_point :: "string \<Rightarrow> rat option" where
  "fixed_point s =
     (let whole = takeWhile (\<lambda>c. c \<noteq> CHR ''.'') s;
          frac = drop (Suc (length whole)) s
      in if whole = [] \<and> frac = [] then None
         else case (digits 0 whole, digits 0 frac) of
                (Some w, Some f) \<Rightarrow> Some (of_int w + of_int f / 10 ^ length frac)
              | _ \<Rightarrow> None)"

definition ParseFloat10 :: "string \<Rightarrow> xfloat option" where
  "ParseFloat10 s =
     (if s = ''NaN'' then Some NaN
      else if s = ''Inf'' \<or> s = ''+Inf'' then Some (Inf False)
      else if s = ''-Inf'' then Some (Inf True)
      else case fixed_point (unsigned s) of
             None \<Rightarrow> None
           | Some q \<Rightarrow> Some (Fin (if is_negative s then - q else q)))"

subsection \<open>Records and files\<close>

text \<open>
  The records of the repository's test \<open>Success_NormalData\<close>; two products with the
  same total; a single record with a negative quantity; a single record with quantity 0;
  a record with quantity 0 beside one with a positive quantity; and two records of one
  product whose quantities add up to \<open>2^63\<close>, one more than an \<open>int\<close> holds.
\<close>

definition normal_data :: "xfloat SaleRecord list" where
  "normal_data =
     [\<lparr>Date = ''2023'', Product = ''ProductA'', Quantity = 10, Price = Fin 5\<rparr>,
      \<lparr>Date = ''2023'', Product = ''ProductB'', Quantity = 5, Price = Fin 20\<rparr>,
      \<lparr>Date = ''2023'', Product = ''ProductA'', Quantity = 2, Price = Fin 5\<rparr>]"

definition tie_data :: "xfloat SaleRecord list" where
  "tie_data =
     [\<lparr>Date = ''2023'', Product = ''ProductA'', Quantity = 5, Price = Fin 1\<rparr>,
      \<lparr>Date = ''2023'', Product = ''ProductB'', Quantity = 5, Price = Fin 1\<rparr>]"

definition refund_data :: "xfloat SaleRecord list" where
  "refund_data = [\<lparr>Date = ''2023'', Product = ''ProductA'', Quantity = - 1, Price = Fin 5\<rparr>]"

definition idle_data :: "xfloat SaleRecord list" where
  "idle_data = [\<lparr>Date = ''2023'', Product = ''ProductA'', Quantity = 0, Price = Fin 5\<rparr>]"

definition mostly_idle_data :: "xfloat SaleRecord list" where
  "mostly_idle_data =
     [\<lparr>Date = ''2023'', Product = ''ProductA'', Quantity = 0, Price = Fin 5\<rparr>,
      \<lparr>Date = ''2023'', Product = ''ProductB'', Quantity = 5, Price = Fin 20\<rparr>]"

definition overflow_data :: "xfloat SaleRecord list" where
  "overflow_data =
     [\<lparr>Date = ''2023'', Product = ''ProductA'', Quantity = 9223372036854775807, Price = Fin 1\<rparr>,
      \<lparr>Date = ''2023'', Product = ''ProductA'', Quantity = 1, Price = Fin 1\<rparr>]"

text \<open>
  The files of the repository's \<open>TestParseCSV\<close>, as the rows a CSV reader finds in
  them, and five more: good and bad rows mixed, prices that are special values, a file whose third line the
  reader rejects, an empty file and a file with a header only. Any other path does not
  open.
\<close>

definition header_row :: "string list" where
  "header_row = [''Date'', ''Product'', ''Quantity'', ''Price'']"

definition test_files :: "string \<Rightarrow> open_result" where
  "test_files path =
     (if path = ''valid.csv'' then
        Opened [Row header_row,
                Row [''2023-10-01'', ''Laptop'', ''2'', ''1200.50''],
                Row [''2023-10-02'', ''Mouse'', ''10'', ''25.99'']]
      else if path = ''bad_qty.csv'' then
        Opened [Row header_row,
                Row [''2023-10-01'', ''Laptop'', ''Two'', ''1200.50''],
                Row [''2023-10-02'', ''Mouse'', ''10'', ''25.99'']]
      else if path = ''bad_price.csv'' then
        Opened [Row header_row,
                Row [''2023-10-01'', ''Keyboard'', ''5'', ''INVALID_PRICE''],
                Row [''2023-10-02'', ''Mouse'', ''10'', ''25.99'']]
      else if path = ''bad_cols.csv'' then
        Opened [Row header_row,
                Row [''2023-10-01'', ''ProductA'', ''5'', ''10.0'', ''EXTRA_FIELD''],
                Row [''2023-10-02'', ''Mouse'', ''10'', ''25.99'']]
      else if path = ''mixed.csv'' then
        Opened [Row header_row,
                Row [''2023-10-01'', ''Laptop'', ''2'', ''1200.50''],
                Row [''2023-10-02'', ''Laptop'', ''Two'', ''1200.50''],
                Row [''2023-10-03'', ''Keyboard'', ''5'', ''INVALID_PRICE''],
                Row [''2023-10-04'', ''ProductA'', ''5'', ''10.0'', ''EXTRA_FIELD''],
                Row [''2023-10-05'', ''Mouse'', ''10'', ''25.99'']]
      else if path = ''special.csv'' then
        Opened [Row header_row,
                Row [''2023-10-01'', ''Laptop'', ''2'', ''NaN''],
                Row [''2023-10-02'', ''Mouse'', ''10'', ''Inf'']]
      else if path = ''broken.csv'' then
        Opened [Row header_row,
                Row [''2023-10-01'', ''Laptop'', ''2'', ''1200.50''],
                ReadError ''bare quote in non-quoted field'',
                Row [''2023-10-03'', ''Mouse'', ''10'', ''25.99'']]
      else if path = ''empty.csv'' then Opened []
      else if path = ''header_only.csv'' then Opened [Row header_row]
      else OpenError ''no such file or directory'')"

section \<open>What the two loops keep\<close>

lemma sint_of_nat_small:
  assumes "n < 2 ^ 63"
  shows "sint (of_nat n :: go_int) = int n"
proof -
  have "int n < 2 ^ 63"
    using assms by (metis of_nat_less_iff of_nat_numeral of_nat_power)
  then show ?thesis
    by (simp add: signed_of_nat signed_take_bit_int_eq_self)
qed

lemma accumulate_fields:
  "TotalTransactions (fst (accumulate ops st r)) = TotalTransactions (fst st)"
  "MostPopularProduct (fst (accumulate ops st r)) = MostPopularProduct (fst st)"
  "MaxQuantitySoldUnits (fst (accumulate ops st r)) = MaxQuantitySoldUnits (fst st)"
  by (simp_all add: accumulate_def split: prod.split)

lemma foldl_accumulate_fields:
  "TotalTransactions (fst (foldl (accumulate ops) st rs)) = TotalTransactions (fst st)"
  "MostPopularProduct (fst (foldl (accumulate ops) st rs)) = MostPopularProduct (fst st)"
  "MaxQuantitySoldUnits (fst (foldl (accumulate ops) st rs)) = MaxQuantitySoldUnits (fst st)"
  by (induction rs arbitrary: st) (simp_all add: accumulate_fields)

lemma aggregate_fields:
  "TotalTransactions (fst (aggregate ops records)) = of_nat (length records)"
  "MostPopularProduct (fst (aggregate ops records)) = []"
  "MaxQuantitySoldUnits (fst (aggregate ops records)) = 0"
  by (simp_all add: aggregate_def foldl_accumulate_fields)

lemma select_max_keeps:
  "TotalTransactions (select_max pq res k) = TotalTransactions res"
  "TotalRevenue (select_max pq res k) = TotalRevenue res"
  by (simp_all add: select_max_def split: option.split)

lemma foldl_select_max_keeps:
  "TotalTransactions (foldl (select_max pq) res ks) = TotalTransactions res"
  "TotalRevenue (foldl (select_max pq) res ks) = TotalRevenue res"
  by (induction ks arbitrary: res) (simp_all add: select_max_keeps)

lemma AnalyzeData_TotalTransactions:
  "TotalTransactions (AnalyzeData ops visit records) = of_nat (length records)"
  by (simp add: AnalyzeData_def case_prod_unfold foldl_select_max_keeps aggregate_fields)

subsection \<open>The map after the first loop\<close>

lemma summed_quantity_absent:
  assumes "k \<notin> Product ` set rs"
  shows "summed_quantity rs k = 0"
proof -
  have "filter (\<lambda>r. Product r = k) rs = []"
    using assms by (auto simp: filter_empty_conv)
  then show ?thesis
    by (simp add: summed_quantity_def)
qed

lemma foldl_accumulate_map:
  "snd (foldl (accumulate ops) (res, m) rs) k =
     (if k \<in> Product ` set rs then Some (lookup0 m k + summed_quantity rs k) else m k)"
proof (induction rs arbitrary: res m)
  case Nil
  then show ?case by simp
next
  case (Cons r rs)
  define m' where "m' = m(Product r \<mapsto> lookup0 m (Product r) + Quantity r)"
  obtain res' where step: "accumulate ops (res, m) r = (res', m')"
    by (simp add: accumulate_def m'_def)
  have "snd (foldl (accumulate ops) (res', m') rs) k =
      (if k \<in> Product ` set rs then Some (lookup0 m' k + summed_quantity rs k) else m' k)"
    by (rule Cons.IH)
  then have loop: "snd (foldl (accumulate ops) (res, m) (r # rs)) k =
      (if k \<in> Product ` set rs then Some (lookup0 m' k + summed_quantity rs k) else m' k)"
    by (simp add: step)
  have stored: "m' k = (if k = Product r then Some (lookup0 m k + Quantity r) else m k)"
    by (simp add: m'_def)
  have read: "lookup0 m' k = (if k = Product r then lookup0 m k + Quantity r else lookup0 m k)"
    by (simp add: m'_def lookup0_def)
  have total: "summed_quantity (r # rs) k =
      (if k = Product r then Quantity r + summed_quantity rs k else summed_quantity rs k)"
    by (auto simp: summed_quantity_def)
  show ?case
    unfolding loop stored read total by (auto simp: ac_simps summed_quantity_absent)
qed

lemma aggregate_map:
  "snd (aggregate ops records) k =
     (if k \<in> product_keys records then Some (summed_quantity records k) else None)"
  by (simp add: aggregate_def foldl_accumulate_map lookup0_def product_keys_def)

lemma dom_aggregate: "dom (snd (aggregate ops records)) = product_keys records"
  by (auto simp: dom_def aggregate_map)

lemma range_order_keys:
  "range_order (snd (aggregate ops records)) visit \<longleftrightarrow>
     distinct visit \<and> set visit = product_keys records"
  by (simp add: range_order_def dom_aggregate)

subsection \<open>The second loop\<close>

lemma select_max_sint:
  assumes "pq k = Some v"
  shows "sint (MaxQuantitySoldUnits (select_max pq res k)) =
           max (sint (MaxQuantitySoldUnits res)) (sint v)"
  using assms by (simp add: select_max_def word_sless_alt max_def)

lemma foldl_select_max_sint:
  assumes "set ks \<subseteq> dom pq"
  shows "sint (MaxQuantitySoldUnits (foldl (select_max pq) res ks)) =
           Max (insert (sint (MaxQuantitySoldUnits res)) ((\<lambda>k. sint (lookup0 pq k)) ` set ks))"
  using assms
proof (induction ks arbitrary: res)
  case Nil
  then show ?case by simp
next
  case (Cons k ks)
  then obtain v where v: "pq k = Some v" by auto
  have fin: "finite ((\<lambda>k. sint (lookup0 pq k)) ` set ks)" by simp
  have "sint (MaxQuantitySoldUnits (foldl (select_max pq) (select_max pq res k) ks)) =
          Max (insert (max (sint (MaxQuantitySoldUnits res)) (sint v))
                 ((\<lambda>k. sint (lookup0 pq k)) ` set ks))"
    using Cons.prems v by (simp add: Cons.IH select_max_sint [of pq k v])
  also have "\<dots> = Max (insert (sint (MaxQuantitySoldUnits res))
                        (insert (sint v) ((\<lambda>k. sint (lookup0 pq k)) ` set ks)))"
    using fin by (cases "set ks = {}") (simp_all add: max.assoc)
  finally show ?case
    by (simp add: v lookup0_def)
qed

text \<open>
  Where the winner comes from: either no visited key beat the starting maximum and both
  fields are as they were, or the key is a visited one, its total is the maximum
  reported, and that total is strictly above the starting maximum.
\<close>

lemma foldl_select_max_key:
  "(MaxQuantitySoldUnits (foldl (select_max pq) res ks) = MaxQuantitySoldUnits res \<and>
    MostPopularProduct (foldl (select_max pq) res ks) = MostPopularProduct res) \<or>
   (MostPopularProduct (foldl (select_max pq) res ks) \<in> set ks \<and>
    pq (MostPopularProduct (foldl (select_max pq) res ks)) =
      Some (MaxQuantitySoldUnits (foldl (select_max pq) res ks)) \<and>
    MaxQuantitySoldUnits res <s MaxQuantitySoldUnits (foldl (select_max pq) res ks))"
proof (induction ks arbitrary: res)
  case Nil
  then show ?case by simp
next
  case (Cons k ks)
  let ?r1 = "select_max pq res k"
  let ?r = "foldl (select_max pq) ?r1 ks"
  have first:
    "(MaxQuantitySoldUnits ?r1 = MaxQuantitySoldUnits res \<and>
      MostPopularProduct ?r1 = MostPopularProduct res) \<or>
     (MostPopularProduct ?r1 = k \<and> pq k = Some (MaxQuantitySoldUnits ?r1) \<and>
      MaxQuantitySoldUnits res <s MaxQuantitySoldUnits ?r1)"
    by (simp add: select_max_def split: option.split)
  have rest:
    "(MaxQuantitySoldUnits ?r = MaxQuantitySoldUnits ?r1 \<and>
      MostPopularProduct ?r = MostPopularProduct ?r1) \<or>
     (MostPopularProduct ?r \<in> set ks \<and> pq (MostPopularProduct ?r) = Some (MaxQuantitySoldUnits ?r) \<and>
      MaxQuantitySoldUnits ?r1 <s MaxQuantitySoldUnits ?r)"
    by (rule Cons.IH)
  have mono: "sint (MaxQuantitySoldUnits res) \<le> sint (MaxQuantitySoldUnits ?r1)"
    by (simp add: select_max_def word_sless_alt split: option.split)
  from first rest mono show ?case
    by (auto simp: word_sless_alt)
qed

subsection \<open>Both loops together\<close>

lemma AnalyzeData_max:
  assumes "range_order (snd (aggregate ops records)) visit"
  shows "sint (MaxQuantitySoldUnits (AnalyzeData ops visit records)) =
           Max (insert 0 ((\<lambda>k. sint (summed_quantity records k)) ` product_keys records))"
proof -
  obtain res pq where agg: "aggregate ops records = (res, pq)"
    by (cases "aggregate ops records")
  have "dom pq = product_keys records"
    using dom_aggregate [of ops records] by (simp add: agg)
  then have keys: "set visit = product_keys records" and dom: "set visit \<subseteq> dom pq"
    using assms by (simp_all add: range_order_def agg)
  have start: "MaxQuantitySoldUnits res = 0"
    using aggregate_fields(3) [of ops records] by (simp add: agg)
  have "lookup0 pq k = summed_quantity records k" if "k \<in> product_keys records" for k
    using aggregate_map [of ops records k] that by (simp add: agg lookup0_def)
  then have "(\<lambda>k. sint (lookup0 pq k)) ` set visit =
             (\<lambda>k. sint (summed_quantity records k)) ` product_keys records"
    by (simp add: keys)
  then show ?thesis
    using foldl_select_max_sint [OF dom, of res] by (simp add: AnalyzeData_def agg start)
qed

lemma AnalyzeData_key:
  "(MaxQuantitySoldUnits (AnalyzeData ops visit records) = 0 \<and>
    MostPopularProduct (AnalyzeData ops visit records) = []) \<or>
   (MostPopularProduct (AnalyzeData ops visit records) \<in> set visit \<inter> product_keys records \<and>
    summed_quantity records (MostPopularProduct (AnalyzeData ops visit records)) =
      MaxQuantitySoldUnits (AnalyzeData ops visit records) \<and>
    0 <s MaxQuantitySoldUnits (AnalyzeData ops visit records))"
proof -
  obtain res pq where agg: "aggregate ops records = (res, pq)"
    by (cases "aggregate ops records")
  have start: "MaxQuantitySoldUnits res = 0" "MostPopularProduct res = []"
    using aggregate_fields(2,3) [of ops records] by (simp_all add: agg)
  have pq: "pq k = (if k \<in> product_keys records then Some (summed_quantity records k) else None)"
    for k
    using aggregate_map [of ops records k] by (simp add: agg)
  show ?thesis
    using foldl_select_max_key [of pq res visit]
    by (auto simp: AnalyzeData_def agg start pq split: if_splits)
qed

lemma AnalyzeData_TotalRevenue:
  "TotalRevenue (AnalyzeData ops visit records) = revenue_sum ops records"
proof -
  have "TotalRevenue (fst (foldl (accumulate ops) (res, m) rs)) =
          foldl (\<lambda>acc r. fadd ops acc (contribution ops r)) (TotalRevenue res) rs" for res m rs
    by (induction rs arbitrary: res m) (simp_all add: accumulate_def contribution_def)
  then have "TotalRevenue (fst (aggregate ops records)) = revenue_sum ops records"
    by (simp add: aggregate_def revenue_sum_def)
  then show ?thesis
    by (simp add: AnalyzeData_def case_prod_unfold foldl_select_max_keeps)
qed

lemma AnalyzeData_snoc:
  assumes "k \<in> product_keys records"
  shows "AnalyzeData ops (seen @ [k]) records =
           (if MaxQuantitySoldUnits (AnalyzeData ops seen records) <s summed_quantity records k
            then (AnalyzeData ops seen records)
                   \<lparr>MaxQuantitySoldUnits := summed_quantity records k, MostPopularProduct := k\<rparr>
            else AnalyzeData ops seen records)"
proof -
  obtain res pq where agg: "aggregate ops records = (res, pq)"
    by (cases "aggregate ops records")
  have "pq k = Some (summed_quantity records k)"
    using aggregate_map [of ops records k] assms by (simp add: agg)
  then show ?thesis
    by (simp add: AnalyzeData_def agg select_max_def)
qed

lemma range_order_normal_data:
  "range_order (snd (aggregate xops normal_data)) [''ProductB'', ''ProductA'']"
  by (auto simp: range_order_keys product_keys_def normal_data_def)

subsection \<open>Sums in \<open>int\<close> that do not overflow\<close>

lemma sum_list_word_of_int:
  "(sum_list ws :: go_int) = word_of_int (sum_list (map sint ws))"
  by (induction ws) simp_all

lemma sint_sum_list:
  "sint (sum_list ws :: go_int) = signed_take_bit 63 (sum_list (map sint ws))"
  by (subst sum_list_word_of_int) (simp add: sint_sbintrunc')

lemma sint_summed_quantity:
  "sint (summed_quantity records k) = signed_take_bit 63 (exact_quantity records k)"
  by (simp add: summed_quantity_def exact_quantity_def sint_sum_list comp_def)

lemma summed_quantity_fits:
  assumes "fits_int (exact_quantity records k)"
  shows "sint (summed_quantity records k) = exact_quantity records k"
  using assms by (simp add: sint_summed_quantity fits_int_def signed_take_bit_int_eq_self)

lemma exact_quantity_nonneg:
  assumes "\<forall>r\<in>set records. 0 \<le> sint (Quantity r)"
  shows "0 \<le> exact_quantity records k"
  unfolding exact_quantity_def using assms by (intro sum_list_nonneg) auto

lemma exact_quantity_positive_iff:
  assumes "\<forall>r\<in>set records. 0 \<le> sint (Quantity r)"
  shows "0 < exact_quantity records k \<longleftrightarrow>
           (\<exists>r\<in>set records. Product r = k \<and> 0 < sint (Quantity r))"
  using assms unfolding exact_quantity_def
proof (induction records)
  case Nil
  then show ?case by simp
next
  case (Cons r rs)
  have ge: "0 \<le> (\<Sum>r\<leftarrow>filter (\<lambda>r. Product r = k) rs. sint (Quantity r))"
    using Cons.prems by (intro sum_list_nonneg) auto
  have r0: "0 \<le> sint (Quantity r)"
    using Cons.prems by simp
  have IH: "0 < (\<Sum>r\<leftarrow>filter (\<lambda>r. Product r = k) rs. sint (Quantity r)) \<longleftrightarrow>
      (\<exists>r\<in>set rs. Product r = k \<and> 0 < sint (Quantity r))"
    using Cons by simp
  show ?case
    using ge r0 IH by (cases "Product r = k") auto
qed

lemma summed_quantity_positive_iff:
  assumes nonneg: "\<forall>r\<in>set records. 0 \<le>s Quantity r"
    and fits: "exact_quantity records k < 2 ^ 63"
  shows "0 <s summed_quantity records k \<longleftrightarrow>
           (\<exists>r\<in>set records. Product r = k \<and> 0 <s Quantity r)"
proof -
  have nn: "\<forall>r\<in>set records. 0 \<le> sint (Quantity r)"
    using nonneg by (simp add: word_sle_eq)
  have "0 \<le> exact_quantity records k"
    using nn by (rule exact_quantity_nonneg)
  then have "fits_int (exact_quantity records k)"
    using fits by (simp add: fits_int_def)
  then have "sint (summed_quantity records k) = exact_quantity records k"
    by (rule summed_quantity_fits)
  then show ?thesis
    using exact_quantity_positive_iff [OF nn, of k] by (simp add: word_sless_alt)
qed

subsection \<open>Consequences for the result\<close>

lemma finite_product_keys: "finite (product_keys records)"
  by (simp add: product_keys_def)

lemma AnalyzeData_max_positive:
  assumes "range_order (snd (aggregate ops records)) visit"
    and "k \<in> product_keys records" and "0 <s summed_quantity records k"
  shows "0 <s MaxQuantitySoldUnits (AnalyzeData ops visit records)"
proof -
  let ?S = "(\<lambda>k. sint (summed_quantity records k)) ` product_keys records"
  have "finite (insert 0 ?S)"
    by (simp add: finite_product_keys)
  then have "sint (summed_quantity records k) \<le> Max (insert 0 ?S)"
    using assms(2) by (intro Max_ge) auto
  then show ?thesis
    using assms(3) by (simp add: word_sless_alt AnalyzeData_max [OF assms(1)])
qed

lemma AnalyzeData_empty_key_of_zero:
  assumes "MaxQuantitySoldUnits (AnalyzeData ops visit records) = 0"
  shows "MostPopularProduct (AnalyzeData ops visit records) = []"
  using AnalyzeData_key [of ops visit records] assms by auto

lemma AnalyzeData_max_zero:
  assumes "range_order (snd (aggregate ops records)) visit"
    and "\<not> (\<exists>k\<in>product_keys records. 0 <s summed_quantity records k)"
  shows "MaxQuantitySoldUnits (AnalyzeData ops visit records) = 0"
proof -
  let ?S = "(\<lambda>k. sint (summed_quantity records k)) ` product_keys records"
  have "finite (insert 0 ?S)"
    by (simp add: finite_product_keys)
  moreover have "\<forall>x\<in>insert 0 ?S. x \<le> 0"
    using assms(2) by (auto simp: word_sless_alt not_less)
  ultimately have "Max (insert 0 ?S) = 0"
    by (intro Max_eqI) auto
  then have "sint (MaxQuantitySoldUnits (AnalyzeData ops visit records)) = sint (0 :: go_int)"
    by (simp add: AnalyzeData_max [OF assms(1)])
  then show ?thesis
    by (simp only: signed_word_eqI)
qed

lemma AnalyzeData_winner:
  assumes "0 <s MaxQuantitySoldUnits (AnalyzeData ops visit records)"
  shows "MostPopularProduct (AnalyzeData ops visit records) \<in> product_keys records"
    and "summed_quantity records (MostPopularProduct (AnalyzeData ops visit records)) =
           MaxQuantitySoldUnits (AnalyzeData ops visit records)"
proof -
  have "MaxQuantitySoldUnits (AnalyzeData ops visit records) \<noteq> 0"
    using assms by auto
  then show "MostPopularProduct (AnalyzeData ops visit records) \<in> product_keys records"
    and "summed_quantity records (MostPopularProduct (AnalyzeData ops visit records)) =
           MaxQuantitySoldUnits (AnalyzeData ops visit records)"
    using AnalyzeData_key [of ops visit records] by auto
qed

lemma AnalyzeData_no_input:
  "AnalyzeData xops [] [] =
     \<lparr>TotalTransactions = 0, TotalRevenue = Fin 0,
      MostPopularProduct = [], MaxQuantitySoldUnits = 0\<rparr>"
  by (simp add: AnalyzeData_def aggregate_def xops_def)

lemma AnalyzeData_no_records:
  "MaxQuantitySoldUnits (AnalyzeData ops visit []) = 0"
  "MostPopularProduct (AnalyzeData ops visit []) = []"
  using AnalyzeData_key [of ops visit "[]"] by (auto simp: product_keys_def)

lemma TotalTransactions_zero_iff:
  assumes "length records < 2 ^ 63"
  shows "TotalTransactions (AnalyzeData ops visit records) = 0 \<longleftrightarrow> records = []"
proof
  assume "TotalTransactions (AnalyzeData ops visit records) = 0"
  then have "sint (of_nat (length records) :: go_int) = 0"
    by (simp add: AnalyzeData_TotalTransactions)
  then show "records = []"
    by (simp add: sint_of_nat_small [OF assms])
next
  assume "records = []"
  then show "TotalTransactions (AnalyzeData ops visit records) = 0"
    by (simp add: AnalyzeData_TotalTransactions)
qed

subsection \<open>The model on the worked records\<close>

lemma range_order_tie_data:
  "range_order (snd (aggregate xops tie_data)) [''ProductA'', ''ProductB'']"
  by (auto simp: range_order_keys product_keys_def tie_data_def)

lemma AnalyzeData_normal_data:
  "AnalyzeData xops [''ProductB'', ''ProductA''] normal_data =
     \<lparr>TotalTransactions = 3, TotalRevenue = Fin 160,
      MostPopularProduct = ''ProductA'', MaxQuantitySoldUnits = 12\<rparr>"
  by (simp add: AnalyzeData_def aggregate_def accumulate_def select_max_def lookup0_def
      xops_def normal_data_def word_sless_alt)

lemma AnalyzeData_normal_data_first:
  "AnalyzeData xops [''ProductB''] normal_data =
     \<lparr>TotalTransactions = 3, TotalRevenue = Fin 160,
      MostPopularProduct = ''ProductB'', MaxQuantitySoldUnits = 5\<rparr>"
  by (simp add: AnalyzeData_def aggregate_def accumulate_def select_max_def lookup0_def
      xops_def normal_data_def word_sless_alt)

lemma AnalyzeData_refund_data:
  "AnalyzeData xops [''ProductA''] refund_data =
     \<lparr>TotalTransactions = 1, TotalRevenue = Fin (- 5),
      MostPopularProduct = [], MaxQuantitySoldUnits = 0\<rparr>"
  by (simp add: AnalyzeData_def aggregate_def accumulate_def select_max_def lookup0_def
      xops_def refund_data_def word_sless_alt)

lemma AnalyzeData_idle_data:
  "AnalyzeData xops [''ProductA''] idle_data =
     \<lparr>TotalTransactions = 1, TotalRevenue = Fin 0,
      MostPopularProduct = [], MaxQuantitySoldUnits = 0\<rparr>"
  by (simp add: AnalyzeData_def aggregate_def accumulate_def select_max_def lookup0_def
      xops_def idle_data_def word_sless_alt)

lemma AnalyzeData_tie_data:
  "AnalyzeData xops [''ProductA''] tie_data =
     \<lparr>TotalTransactions = 2, TotalRevenue = Fin 10,
      MostPopularProduct = ''ProductA'', MaxQuantitySoldUnits = 5\<rparr>"
  "AnalyzeData xops [''ProductB''] tie_data =
     \<lparr>TotalTransactions = 2, TotalRevenue = Fin 10,
      MostPopularProduct = ''ProductB'', MaxQuantitySoldUnits = 5\<rparr>"
  by (simp_all add: AnalyzeData_def aggregate_def accumulate_def select_max_def lookup0_def
      xops_def tie_data_def word_sless_alt)

lemma summed_quantity_normal_data:
  "summed_quantity normal_data ''ProductA'' = 12"
  "summed_quantity normal_data ''ProductB'' = 5"
  "product_keys normal_data = {''ProductA'', ''ProductB''}"
  by (auto simp: summed_quantity_def product_keys_def normal_data_def)

lemma summed_quantity_tie_data:
  "summed_quantity tie_data ''ProductA'' = 5"
  "summed_quantity tie_data ''ProductB'' = 5"
  "product_keys tie_data = {''ProductA'', ''ProductB''}"
  by (auto simp: summed_quantity_def product_keys_def tie_data_def)

lemma summed_quantity_refund_data:
  "summed_quantity refund_data ''ProductA'' = - 1"
  "product_keys refund_data = {''ProductA''}"
  by (auto simp: summed_quantity_def product_keys_def refund_data_def)

lemma summed_quantity_idle_data:
  "summed_quantity idle_data ''ProductA'' = 0"
  "product_keys idle_data = {''ProductA''}"
  by (auto simp: summed_quantity_def product_keys_def idle_data_def)

lemma exact_quantity_normal_data:
  "exact_quantity normal_data ''ProductA'' = 12"
  "exact_quantity normal_data ''ProductB'' = 5"
  by (simp_all add: exact_quantity_def normal_data_def)

lemma exact_quantity_refund_data:
  "exact_quantity refund_data ''ProductA'' = - 1"
  by (simp add: exact_quantity_def refund_data_def)

lemma mostly_idle_facts:
  "product_keys mostly_idle_data = {''ProductA'', ''ProductB''}"
  "exact_quantity mostly_idle_data ''ProductA'' = 0"
  "exact_quantity mostly_idle_data ''ProductB'' = 5"
  by (auto simp: exact_quantity_def product_keys_def mostly_idle_data_def)

lemma overflow_facts:
  "product_keys overflow_data = {''ProductA''}"
  "summed_quantity overflow_data ''ProductA'' = - 9223372036854775808"
  "exact_quantity overflow_data ''ProductA'' = 9223372036854775808"
  by (auto simp: summed_quantity_def exact_quantity_def product_keys_def overflow_data_def)

section \<open>What the parser returns\<close>

lemma valid_records_Cons:
  "valid_records Atoi ParseFloat (row # rows) =
     (if length row \<noteq> 4 then valid_records Atoi ParseFloat rows
      else case Atoi (row ! 2) of
             None \<Rightarrow> valid_records Atoi ParseFloat rows
           | Some quantity \<Rightarrow>
               (case ParseFloat (row ! 3) of
                  None \<Rightarrow> valid_records Atoi ParseFloat rows
                | Some price \<Rightarrow>
                    \<lparr>Date = row ! 0, Product = row ! 1, Quantity = quantity, Price = price\<rparr>
                      # valid_records Atoi ParseFloat rows))"
  by (simp add: valid_records_def row_valid_def row_record_def split: option.split)

lemma valid_records_append:
  "valid_records Atoi ParseFloat (rows @ rows') =
     valid_records Atoi ParseFloat rows @ valid_records Atoi ParseFloat rows'"
  by (simp add: valid_records_def)

lemma scan_rows_all_rows:
  "returned (scan_rows Atoi ParseFloat n records out (map Row rows)) =
     (records @ valid_records Atoi ParseFloat rows, None)"
proof (induction rows arbitrary: n records out)
  case Nil
  then show ?case by (simp add: valid_records_def)
next
  case (Cons row rows)
  show ?case
    by (simp add: Cons.IH valid_records_Cons split: option.split)
qed

lemma scan_rows_first_error:
  "returned (scan_rows Atoi ParseFloat n records out (map Row rows @ ReadError e # rest)) =
     ([], Some (ErrLine (n + of_nat (length rows)) e))"
proof (induction rows arbitrary: n records out)
  case Nil
  then show ?case by simp
next
  case (Cons row rows)
  show ?case
    by (simp add: Cons.IH add.assoc split: option.split)
qed

lemma reader_shape:
  "(\<exists>rows. reader = map Row rows) \<or> (\<exists>rows e rest. reader = map Row rows @ ReadError e # rest)"
proof (induction reader)
  case Nil
  have "[] = map Row []" by simp
  then show ?case by (intro disjI1 exI)
next
  case (Cons x reader)
  show ?case
  proof (cases x)
    case (ReadError e)
    then have "x # reader = map Row [] @ ReadError e # reader" by simp
    then show ?thesis by (intro disjI2 exI)
  next
    case (Row row)
    from Cons.IH show ?thesis
    proof
      assume "\<exists>rows. reader = map Row rows"
      then obtain rows where "reader = map Row rows" ..
      then have "x # reader = map Row (row # rows)" by (simp add: Row)
      then show ?thesis by (intro disjI1 exI)
    next
      assume "\<exists>rows e rest. reader = map Row rows @ ReadError e # rest"
      then obtain rows e rest where "reader = map Row rows @ ReadError e # rest" by blast
      then have "x # reader = map Row (row # rows) @ ReadError e # rest" by (simp add: Row)
      then show ?thesis by (intro disjI2 exI)
    qed
  qed
qed

lemma read_fails_simps:
  "\<not> read_fails (map Row rows)"
  "read_fails (map Row rows @ ReadError e # rest)"
  by (auto simp: read_fails_def list_ex_iff)

lemma ParseCSV_all_rows:
  assumes "os_Open filePath = Opened (map Row rows)"
  shows "returned (ParseCSV os_Open Atoi ParseFloat filePath) =
           (valid_records Atoi ParseFloat (tl rows), None)"
proof (cases rows)
  case Nil
  then show ?thesis
    using assms by (simp add: ParseCSV_def valid_records_def)
next
  case (Cons header rest)
  then show ?thesis
    using assms scan_rows_all_rows [of Atoi ParseFloat 2 "[]" "[]" rest]
    by (simp add: ParseCSV_def)
qed

lemma ParseCSV_first_error:
  assumes "os_Open filePath = Opened (map Row rows @ ReadError e # rest)"
  shows "returned (ParseCSV os_Open Atoi ParseFloat filePath) =
           ([], Some (if rows = [] then ErrHeader e else ErrLine (1 + of_nat (length rows)) e))"
proof (cases rows)
  case Nil
  then show ?thesis
    using assms by (simp add: ParseCSV_def)
next
  case (Cons header data)
  then show ?thesis
    using assms scan_rows_first_error [of Atoi ParseFloat 2 "[]" "[]" data e rest]
    by (simp add: ParseCSV_def)
qed

lemma ParseCSV_error_iff:
  "snd (returned (ParseCSV os_Open Atoi ParseFloat filePath)) \<noteq> None \<longleftrightarrow>
     (\<exists>e. os_Open filePath = OpenError e) \<or>
     (\<exists>reader. os_Open filePath = Opened reader \<and> read_fails reader)"
proof (cases "os_Open filePath")
  case (OpenError e)
  then show ?thesis by (simp add: ParseCSV_def)
next
  case (Opened reader)
  from reader_shape [of reader] show ?thesis
  proof
    assume "\<exists>rows. reader = map Row rows"
    then obtain rows where "reader = map Row rows" ..
    then show ?thesis
      using Opened ParseCSV_all_rows [of os_Open filePath rows Atoi ParseFloat]
      by (simp add: read_fails_simps)
  next
    assume "\<exists>rows e rest. reader = map Row rows @ ReadError e # rest"
    then obtain rows e rest where "reader = map Row rows @ ReadError e # rest" by blast
    then show ?thesis
      using Opened ParseCSV_first_error [of os_Open filePath rows e rest Atoi ParseFloat]
      by (simp add: read_fails_simps)
  qed
qed

lemma ParseCSV_error_no_records:
  assumes "snd (returned (ParseCSV os_Open Atoi ParseFloat filePath)) \<noteq> None"
  shows "fst (returned (ParseCSV os_Open Atoi ParseFloat filePath)) = []"
proof (cases "os_Open filePath")
  case (OpenError e)
  then show ?thesis by (simp add: ParseCSV_def)
next
  case (Opened reader)
  from reader_shape [of reader] show ?thesis
  proof
    assume "\<exists>rows. reader = map Row rows"
    then obtain rows where "reader = map Row rows" ..
    then show ?thesis
      using Opened assms ParseCSV_all_rows [of os_Open filePath rows Atoi ParseFloat]
      by simp
  next
    assume "\<exists>rows e rest. reader = map Row rows @ ReadError e # rest"
    then obtain rows e rest where "reader = map Row rows @ ReadError e # rest" by blast
    then show ?thesis
      using Opened ParseCSV_first_error [of os_Open filePath rows e rest Atoi ParseFloat]
      by simp
  qed
qed

subsection \<open>The model on the worked files\<close>

lemma parsers_on_test_fields:
  "Atoi10 ''2'' = Some 2" "Atoi10 ''10'' = Some 10" "Atoi10 ''5'' = Some 5" "Atoi10 ''Two'' = None"
  "ParseFloat10 ''1200.50'' = Some (Fin (2401 / 2))"
  "ParseFloat10 ''25.99'' = Some (Fin (2599 / 100))"
  "ParseFloat10 ''10.0'' = Some (Fin 10)"
  "ParseFloat10 ''INVALID_PRICE'' = None"
  "ParseFloat10 ''NaN'' = Some NaN"
  "ParseFloat10 ''Inf'' = Some (Inf False)"
  by (simp_all add: Atoi10_def ParseFloat10_def digit_def in_int_range_def fixed_point_def
      unsigned_def is_negative_def)

lemma ParseCSV_valid:
  "ParseCSV test_files Atoi10 ParseFloat10 ''valid.csv'' =
     \<lparr>returned =
        ([\<lparr>Date = ''2023-10-01'', Product = ''Laptop'', Quantity = 2, Price = Fin (2401 / 2)\<rparr>,
          \<lparr>Date = ''2023-10-02'', Product = ''Mouse'', Quantity = 10, Price = Fin (2599 / 100)\<rparr>],
         None),
      printed = []\<rparr>"
  by (simp add: ParseCSV_def test_files_def parsers_on_test_fields)

lemma ParseCSV_bad_qty:
  "ParseCSV test_files Atoi10 ParseFloat10 ''bad_qty.csv'' =
     \<lparr>returned =
        ([\<lparr>Date = ''2023-10-02'', Product = ''Mouse'', Quantity = 10, Price = Fin (2599 / 100)\<rparr>],
         None),
      printed = [BadQuantity 2 ''Two'']\<rparr>"
  by (simp add: ParseCSV_def test_files_def parsers_on_test_fields)

lemma ParseCSV_bad_price:
  "ParseCSV test_files Atoi10 ParseFloat10 ''bad_price.csv'' =
     \<lparr>returned =
        ([\<lparr>Date = ''2023-10-02'', Product = ''Mouse'', Quantity = 10, Price = Fin (2599 / 100)\<rparr>],
         None),
      printed = [BadPrice 2 ''INVALID_PRICE'']\<rparr>"
  by (simp add: ParseCSV_def test_files_def parsers_on_test_fields)

lemma ParseCSV_bad_cols:
  "ParseCSV test_files Atoi10 ParseFloat10 ''bad_cols.csv'' =
     \<lparr>returned =
        ([\<lparr>Date = ''2023-10-02'', Product = ''Mouse'', Quantity = 10, Price = Fin (2599 / 100)\<rparr>],
         None),
      printed = [WrongFieldCount 2 5]\<rparr>"
  by (simp add: ParseCSV_def test_files_def parsers_on_test_fields)

lemma ParseCSV_mixed:
  "returned (ParseCSV test_files Atoi10 ParseFloat10 ''mixed.csv'') =
     ([\<lparr>Date = ''2023-10-01'', Product = ''Laptop'', Quantity = 2, Price = Fin (2401 / 2)\<rparr>,
       \<lparr>Date = ''2023-10-05'', Product = ''Mouse'', Quantity = 10, Price = Fin (2599 / 100)\<rparr>],
      None)"
  "printed (ParseCSV test_files Atoi10 ParseFloat10 ''mixed.csv'') =
     [BadQuantity 3 ''Two'', BadPrice 4 ''INVALID_PRICE'', WrongFieldCount 5 5]"
  by (simp_all add: ParseCSV_def test_files_def parsers_on_test_fields)

lemma ParseCSV_special:
  "ParseCSV test_files Atoi10 ParseFloat10 ''special.csv'' =
     \<lparr>returned =
        ([\<lparr>Date = ''2023-10-01'', Product = ''Laptop'', Quantity = 2, Price = NaN\<rparr>,
          \<lparr>Date = ''2023-10-02'', Product = ''Mouse'', Quantity = 10, Price = Inf False\<rparr>],
         None),
      printed = []\<rparr>"
  by (simp add: ParseCSV_def test_files_def parsers_on_test_fields)

lemma ParseCSV_broken:
  "ParseCSV test_files Atoi10 ParseFloat10 ''broken.csv'' =
     \<lparr>returned = ([], Some (ErrLine 3 ''bare quote in non-quoted field'')), printed = []\<rparr>"
  by (simp add: ParseCSV_def test_files_def parsers_on_test_fields)

lemma ParseCSV_nonexistent:
  "ParseCSV test_files Atoi10 ParseFloat10 ''nonexistent.csv'' =
     \<lparr>returned = ([], Some (ErrOpen ''nonexistent.csv'' ''no such file or directory'')),
      printed = []\<rparr>"
  by (simp add: ParseCSV_def test_files_def)

section \<open>Claims\<close>

text \<open>
  C1, as amended. For every non-empty input and every order in which the second loop
  may visit the map, \<open>MaxQuantitySoldUnits\<close> is the larger of 0 and the maximum, over
  the product keys of the input, of the summed quantity of the key; and when at least
  one product's summed quantity is strictly positive, \<open>MostPopularProduct\<close> is a
  product key of some input record and \<open>MaxQuantitySoldUnits\<close> is that maximum. The
  sums are those of Go's \<open>int\<close>.
\<close>

theorem most_popular_is_input_key_with_max_total:
  assumes "range_order (snd (aggregate ops records)) visit" and "records \<noteq> []"
  shows "sint (MaxQuantitySoldUnits (AnalyzeData ops visit records)) =
           max 0 (max_summed_quantity records) \<and>
         ((\<exists>k\<in>product_keys records. 0 <s summed_quantity records k) \<longrightarrow>
            MostPopularProduct (AnalyzeData ops visit records) \<in> product_keys records \<and>
            sint (MaxQuantitySoldUnits (AnalyzeData ops visit records)) =
              max_summed_quantity records)"
proof -
  let ?r = "AnalyzeData ops visit records"
  let ?S = "(\<lambda>k. sint (summed_quantity records k)) ` product_keys records"
  have S: "finite ?S" "?S \<noteq> {}"
    using assms(2) by (simp_all add: product_keys_def)
  have mx: "sint (MaxQuantitySoldUnits ?r) = max 0 (max_summed_quantity records)"
    using S by (simp add: AnalyzeData_max [OF assms(1)] max_summed_quantity_def)
  have "MostPopularProduct ?r \<in> product_keys records \<and>
        sint (MaxQuantitySoldUnits ?r) = max_summed_quantity records"
    if "k \<in> product_keys records" "0 <s summed_quantity records k" for k
  proof -
    have pos: "0 <s MaxQuantitySoldUnits ?r"
      using assms(1) that by (rule AnalyzeData_max_positive)
    then have "MaxQuantitySoldUnits ?r \<noteq> 0"
      by auto
    then have "MostPopularProduct ?r \<in> product_keys records"
      using AnalyzeData_key [of ops visit records] by auto
    moreover have "0 < max 0 (max_summed_quantity records)"
      using pos by (simp add: word_sless_alt mx)
    then have "max 0 (max_summed_quantity records) = max_summed_quantity records"
      by simp
    ultimately show ?thesis
      by (simp add: mx)
  qed
  with mx show ?thesis
    by blast
qed

theorem most_popular_is_input_key_with_max_total_witness:
  "range_order (snd (aggregate xops normal_data)) [''ProductB'', ''ProductA''] \<and>
   normal_data \<noteq> [] \<and>
   ''ProductA'' \<in> product_keys normal_data \<and> 0 <s summed_quantity normal_data ''ProductA'' \<and>
   MostPopularProduct (AnalyzeData xops [''ProductB'', ''ProductA''] normal_data)
     \<in> product_keys normal_data \<and>
   sint (MaxQuantitySoldUnits (AnalyzeData xops [''ProductB'', ''ProductA''] normal_data)) =
     max_summed_quantity normal_data \<and>
   max_summed_quantity normal_data = 12"
proof -
  have o: "range_order (snd (aggregate xops normal_data)) [''ProductB'', ''ProductA'']"
    by (rule range_order_normal_data)
  have n: "normal_data \<noteq> []"
    by (simp add: normal_data_def)
  have p: "\<exists>k\<in>product_keys normal_data. 0 <s summed_quantity normal_data k"
    by (simp add: summed_quantity_normal_data word_sless_alt)
  have m: "max_summed_quantity normal_data = 12"
    by (simp add: max_summed_quantity_def summed_quantity_normal_data)
  show ?thesis
    using most_popular_is_input_key_with_max_total [OF o n] o n p m
    by (simp add: summed_quantity_normal_data word_sless_alt)
qed

text \<open>
  C1 as stated, for every non-empty input, does not hold: for the single record with
  quantity \<open>-1\<close> the result names the empty string, which is no key of the input, and
  reports 0, while the only summed quantity is \<open>-1\<close>.
\<close>

theorem most_popular_not_input_key_counterexample:
  "refund_data \<noteq> [] \<and>
   range_order (snd (aggregate xops refund_data)) [''ProductA''] \<and>
   MostPopularProduct (AnalyzeData xops [''ProductA''] refund_data) \<notin> product_keys refund_data \<and>
   sint (MaxQuantitySoldUnits (AnalyzeData xops [''ProductA''] refund_data)) \<noteq>
     max_summed_quantity refund_data"
proof -
  have "range_order (snd (aggregate xops refund_data)) [''ProductA'']"
    by (simp add: range_order_keys summed_quantity_refund_data)
  moreover have "max_summed_quantity refund_data = - 1"
    by (simp add: max_summed_quantity_def summed_quantity_refund_data)
  moreover have "refund_data \<noteq> []"
    by (simp add: refund_data_def)
  ultimately show ?thesis
    by (simp add: AnalyzeData_refund_data summed_quantity_refund_data)
qed

text \<open>
  C2. For every input sequence, \<open>TotalRevenue\<close> is the left-to-right fold, in input
  order and from \<open>0.0\<close>, of \<open>acc + quantity \<times> price\<close> in the arithmetic of
  \<open>float64\<close>, whatever order the second loop visits the map in; so a record appended
  to the input adds exactly its \<open>quantity \<times> price\<close> to the total.
\<close>

theorem AnalyzeData_revenue_is_fold:
  "TotalRevenue (AnalyzeData ops visit records) =
     foldl (\<lambda>acc r. fadd ops acc (fmul ops (float64 ops (Quantity r)) (Price r)))
       (fzero ops) records \<and>
   TotalRevenue (AnalyzeData ops visit' (records @ [r])) =
     fadd ops (TotalRevenue (AnalyzeData ops visit records))
       (fmul ops (float64 ops (Quantity r)) (Price r))"
  by (simp add: AnalyzeData_TotalRevenue revenue_sum_def contribution_def)

text \<open>
  C3, as amended. For every input (of a length that fits an \<open>int\<close>, as every Go
  slice has) and every visiting order: if \<open>TotalTransactions\<close> is 0 then
  \<open>MaxQuantitySoldUnits\<close> is 0, and if \<open>MaxQuantitySoldUnits\<close> is 0 then
  \<open>MostPopularProduct\<close> is the empty string. When moreover every quantity is
  non-negative, each product's quantities add up to less than \<open>2^63\<close> and no record
  with a strictly positive quantity has the empty string as its product key, the three
  conditions are equivalent exactly when the input is empty or some quantity is strictly
  positive.
\<close>

theorem empty_product_and_zero_counts:
  assumes "range_order (snd (aggregate ops records)) visit" and "length records < 2 ^ 63"
  shows "(TotalTransactions (AnalyzeData ops visit records) = 0 \<longrightarrow>
            MaxQuantitySoldUnits (AnalyzeData ops visit records) = 0) \<and>
         (MaxQuantitySoldUnits (AnalyzeData ops visit records) = 0 \<longrightarrow>
            MostPopularProduct (AnalyzeData ops visit records) = []) \<and>
         ((\<forall>r\<in>set records. 0 \<le>s Quantity r \<and> (0 <s Quantity r \<longrightarrow> Product r \<noteq> [])) \<and>
          (\<forall>k\<in>product_keys records. exact_quantity records k < 2 ^ 63) \<longrightarrow>
            (((MostPopularProduct (AnalyzeData ops visit records) = [] \<longleftrightarrow>
                 TotalTransactions (AnalyzeData ops visit records) = 0) \<and>
              (TotalTransactions (AnalyzeData ops visit records) = 0 \<longleftrightarrow>
                 MaxQuantitySoldUnits (AnalyzeData ops visit records) = 0)) \<longleftrightarrow>
             (records = [] \<or> (\<exists>r\<in>set records. 0 <s Quantity r))))"
proof -
  let ?r = "AnalyzeData ops visit records"
  have tt: "TotalTransactions ?r = 0 \<longleftrightarrow> records = []"
    by (rule TotalTransactions_zero_iff [OF assms(2)])
  have a: "MaxQuantitySoldUnits ?r = 0" if "TotalTransactions ?r = 0"
    using that by (simp add: tt AnalyzeData_no_records)
  have b: "MostPopularProduct ?r = []" if "MaxQuantitySoldUnits ?r = 0"
    using that by (rule AnalyzeData_empty_key_of_zero)
  have c: "((MostPopularProduct ?r = [] \<longleftrightarrow> TotalTransactions ?r = 0) \<and>
            (TotalTransactions ?r = 0 \<longleftrightarrow> MaxQuantitySoldUnits ?r = 0)) \<longleftrightarrow>
           (records = [] \<or> (\<exists>r\<in>set records. 0 <s Quantity r))"
    if ok: "\<forall>r\<in>set records. 0 \<le>s Quantity r \<and> (0 <s Quantity r \<longrightarrow> Product r \<noteq> [])"
      and fits: "\<forall>k\<in>product_keys records. exact_quantity records k < 2 ^ 63"
  proof -
    have nonneg: "\<forall>r\<in>set records. 0 \<le>s Quantity r"
      using ok by simp
    have total: "0 <s summed_quantity records k \<longleftrightarrow>
        (\<exists>r\<in>set records. Product r = k \<and> 0 <s Quantity r)" if "k \<in> product_keys records" for k
      using nonneg fits that by (intro summed_quantity_positive_iff) auto
    show ?thesis
    proof (cases "\<exists>r\<in>set records. 0 <s Quantity r")
      case True
      then obtain r where r: "r \<in> set records" "0 <s Quantity r" ..
      then have k: "Product r \<in> product_keys records"
        by (simp add: product_keys_def)
      then have "0 <s summed_quantity records (Product r)"
        using total r by blast
      with assms(1) k have mx: "0 <s MaxQuantitySoldUnits ?r"
        by (rule AnalyzeData_max_positive)
      then have nz: "MaxQuantitySoldUnits ?r \<noteq> 0"
        by auto
      have w: "MostPopularProduct ?r \<in> product_keys records"
        and "summed_quantity records (MostPopularProduct ?r) = MaxQuantitySoldUnits ?r"
        using AnalyzeData_winner [OF mx] by simp_all
      then have "0 <s summed_quantity records (MostPopularProduct ?r)"
        using mx by simp
      then obtain r' where "r' \<in> set records" "Product r' = MostPopularProduct ?r"
        "0 <s Quantity r'"
        using total [OF w] by blast
      then have "MostPopularProduct ?r \<noteq> []"
        using ok by auto
      moreover have "records \<noteq> []"
        using r by auto
      ultimately show ?thesis
        using True nz tt by simp
    next
      case False
      then have "\<not> (\<exists>k\<in>product_keys records. 0 <s summed_quantity records k)"
        using total by blast
      with assms(1) have "MaxQuantitySoldUnits ?r = 0"
        by (rule AnalyzeData_max_zero)
      then show ?thesis
        using False tt b by auto
    qed
  qed
  show ?thesis
    using a b c by blast
qed

theorem empty_product_and_zero_counts_witness:
  "range_order (snd (aggregate xops mostly_idle_data)) [''ProductA'', ''ProductB''] \<and>
   length mostly_idle_data < 2 ^ 63 \<and>
   list_all (\<lambda>r. 0 \<le>s Quantity r \<and> (0 <s Quantity r \<longrightarrow> Product r \<noteq> [])) mostly_idle_data \<and>
   list_all (\<lambda>k. exact_quantity mostly_idle_data k < 2 ^ 63) [''ProductA'', ''ProductB''] \<and>
   list_ex (\<lambda>r. 0 <s Quantity r) mostly_idle_data \<and>
   TotalTransactions (AnalyzeData xops [''ProductA'', ''ProductB''] mostly_idle_data) \<noteq> 0 \<and>
   MaxQuantitySoldUnits (AnalyzeData xops [''ProductA'', ''ProductB''] mostly_idle_data) \<noteq> 0 \<and>
   MostPopularProduct (AnalyzeData xops [''ProductA'', ''ProductB''] mostly_idle_data) \<noteq> []"
proof -
  have o: "range_order (snd (aggregate xops mostly_idle_data)) [''ProductA'', ''ProductB'']"
    by (simp add: range_order_keys mostly_idle_facts)
  have n: "length mostly_idle_data < 2 ^ 63"
    by (simp add: mostly_idle_data_def)
  have q: "\<forall>r\<in>set mostly_idle_data.
      0 \<le>s Quantity r \<and> (0 <s Quantity r \<longrightarrow> Product r \<noteq> [])"
    by (simp add: mostly_idle_data_def word_sle_eq)
  have f: "\<forall>k\<in>product_keys mostly_idle_data. exact_quantity mostly_idle_data k < 2 ^ 63"
    by (simp add: mostly_idle_facts)
  have p: "\<exists>r\<in>set mostly_idle_data. 0 <s Quantity r"
    by (simp add: mostly_idle_data_def word_sless_alt)
  have t: "TotalTransactions (AnalyzeData xops [''ProductA'', ''ProductB''] mostly_idle_data) \<noteq> 0"
    by (simp add: AnalyzeData_TotalTransactions mostly_idle_data_def)
  have g: "MaxQuantitySoldUnits (AnalyzeData xops [''ProductA'', ''ProductB''] mostly_idle_data) \<noteq> 0 \<and>
      MostPopularProduct (AnalyzeData xops [''ProductA'', ''ProductB''] mostly_idle_data) \<noteq> []"
    using empty_product_and_zero_counts [OF o n] q f p t by blast
  have h: "list_all (\<lambda>r. 0 \<le>s Quantity r \<and> (0 <s Quantity r \<longrightarrow> Product r \<noteq> [])) mostly_idle_data"
    "list_all (\<lambda>k. exact_quantity mostly_idle_data k < 2 ^ 63) [''ProductA'', ''ProductB'']"
    "list_ex (\<lambda>r. 0 <s Quantity r) mostly_idle_data"
    using q f p by (simp_all add: list_all_iff list_ex_iff mostly_idle_facts)
  from o n h t g show ?thesis
    by (intro conjI) simp_all
qed

text \<open>
  C3 as stated, for non-negative quantities, does not hold: for the single record with
  quantity 0 the product is the empty string and the maximum is 0, yet there is one
  transaction.
\<close>

theorem empty_product_with_transactions_counterexample:
  "list_all (\<lambda>r. 0 \<le>s Quantity r) idle_data \<and>
   range_order (snd (aggregate xops idle_data)) [''ProductA''] \<and>
   MostPopularProduct (AnalyzeData xops [''ProductA''] idle_data) = [] \<and>
   MaxQuantitySoldUnits (AnalyzeData xops [''ProductA''] idle_data) = 0 \<and>
   TotalTransactions (AnalyzeData xops [''ProductA''] idle_data) \<noteq> 0"
proof -
  have "range_order (snd (aggregate xops idle_data)) [''ProductA'']"
    by (simp add: range_order_keys summed_quantity_idle_data)
  moreover have "list_all (\<lambda>r. 0 \<le>s Quantity r) idle_data"
    by (simp add: idle_data_def)
  ultimately show ?thesis
    by (simp add: AnalyzeData_idle_data)
qed

text \<open>
  C4. In the reduction over the per-product totals, the running maximum and its key
  start at 0 and the empty string (the result before any key is visited). Visiting one
  more key \<open>k\<close> after the keys \<open>seen\<close> installs the total of \<open>k\<close> and \<open>k\<close>
  itself exactly when that total is strictly greater than the maximum so far, and
  otherwise changes nothing; in particular a total equal to the maximum so far leaves
  the incumbent in place.
\<close>

theorem second_loop_replaces_on_strict_increase:
  "MaxQuantitySoldUnits (AnalyzeData ops [] records) = 0 \<and>
   MostPopularProduct (AnalyzeData ops [] records) = [] \<and>
   (k \<in> product_keys records \<longrightarrow>
      AnalyzeData ops (seen @ [k]) records =
        (if MaxQuantitySoldUnits (AnalyzeData ops seen records) <s summed_quantity records k
         then (AnalyzeData ops seen records)
                \<lparr>MaxQuantitySoldUnits := summed_quantity records k, MostPopularProduct := k\<rparr>
         else AnalyzeData ops seen records) \<and>
      (summed_quantity records k = MaxQuantitySoldUnits (AnalyzeData ops seen records) \<longrightarrow>
         AnalyzeData ops (seen @ [k]) records = AnalyzeData ops seen records))"
proof -
  have "MaxQuantitySoldUnits (AnalyzeData ops [] records) = 0"
    and "MostPopularProduct (AnalyzeData ops [] records) = []"
    by (simp_all add: AnalyzeData_def case_prod_unfold aggregate_fields)
  then show ?thesis
    by (simp add: AnalyzeData_snoc)
qed

theorem second_loop_replaces_on_strict_increase_witness:
  "''ProductB'' \<in> product_keys tie_data \<and>
   summed_quantity tie_data ''ProductB'' =
     MaxQuantitySoldUnits (AnalyzeData xops [''ProductA''] tie_data) \<and>
   AnalyzeData xops [''ProductA'', ''ProductB''] tie_data =
     AnalyzeData xops [''ProductA''] tie_data \<and>
   MostPopularProduct (AnalyzeData xops [''ProductA'', ''ProductB''] tie_data) = ''ProductA'' \<and>
   ''ProductA'' \<in> product_keys normal_data \<and>
   MaxQuantitySoldUnits (AnalyzeData xops [''ProductB''] normal_data)
     <s summed_quantity normal_data ''ProductA'' \<and>
   AnalyzeData xops [''ProductB'', ''ProductA''] normal_data =
     (AnalyzeData xops [''ProductB''] normal_data)
       \<lparr>MaxQuantitySoldUnits := 12, MostPopularProduct := ''ProductA''\<rparr>"
proof -
  have k: "''ProductB'' \<in> product_keys tie_data" "''ProductA'' \<in> product_keys normal_data"
    by (simp_all add: summed_quantity_tie_data summed_quantity_normal_data)
  have tie: "summed_quantity tie_data ''ProductB'' =
      MaxQuantitySoldUnits (AnalyzeData xops [''ProductA''] tie_data)"
    by (simp add: summed_quantity_tie_data AnalyzeData_tie_data)
  have up: "MaxQuantitySoldUnits (AnalyzeData xops [''ProductB''] normal_data)
      <s summed_quantity normal_data ''ProductA''"
    by (simp add: summed_quantity_normal_data AnalyzeData_normal_data_first word_sless_alt)
  show ?thesis
    using second_loop_replaces_on_strict_increase
            [of xops tie_data "''ProductB''" "[''ProductA'']"]
          second_loop_replaces_on_strict_increase
            [of xops normal_data "''ProductA''" "[''ProductB'']"]
          k tie up
    by (simp add: AnalyzeData_tie_data summed_quantity_normal_data)
qed

text \<open>
  C5. For a file whose reads all succeed, the header aside, \<open>ParseCSV\<close> returns no
  error and exactly the records of the data rows that have four fields, an integer third
  field and a floating-point fourth field, in the order of the file: a row failing one
  of the three checks is left out and the rows around it are kept.
\<close>

theorem ParseCSV_keeps_valid_rows_in_order:
  assumes "os_Open filePath = Opened (map Row (header # rows))"
  shows "returned (ParseCSV os_Open Atoi ParseFloat filePath) =
           (map (row_record Atoi ParseFloat)
              (filter (\<lambda>row. length row = 4 \<and> Atoi (row ! 2) \<noteq> None \<and>
                                ParseFloat (row ! 3) \<noteq> None) rows),
            None)"
  using ParseCSV_all_rows [of os_Open filePath "header # rows" Atoi ParseFloat] assms
  by (simp add: valid_records_def row_valid_def [abs_def])

theorem ParseCSV_keeps_valid_rows_in_order_witness:
  "test_files ''mixed.csv'' =
     Opened (map Row
       [header_row,
        [''2023-10-01'', ''Laptop'', ''2'', ''1200.50''],
        [''2023-10-02'', ''Laptop'', ''Two'', ''1200.50''],
        [''2023-10-03'', ''Keyboard'', ''5'', ''INVALID_PRICE''],
        [''2023-10-04'', ''ProductA'', ''5'', ''10.0'', ''EXTRA_FIELD''],
        [''2023-10-05'', ''Mouse'', ''10'', ''25.99'']]) \<and>
   returned (ParseCSV test_files Atoi10 ParseFloat10 ''mixed.csv'') =
     ([\<lparr>Date = ''2023-10-01'', Product = ''Laptop'', Quantity = 2, Price = Fin (2401 / 2)\<rparr>,
       \<lparr>Date = ''2023-10-05'', Product = ''Mouse'', Quantity = 10, Price = Fin (2599 / 100)\<rparr>],
      None)"
proof -
  have opened: "test_files ''mixed.csv'' =
     Opened (map Row
       (header_row #
        [[''2023-10-01'', ''Laptop'', ''2'', ''1200.50''],
         [''2023-10-02'', ''Laptop'', ''Two'', ''1200.50''],
         [''2023-10-03'', ''Keyboard'', ''5'', ''INVALID_PRICE''],
         [''2023-10-04'', ''ProductA'', ''5'', ''10.0'', ''EXTRA_FIELD''],
         [''2023-10-05'', ''Mouse'', ''10'', ''25.99'']]))"
    by (simp add: test_files_def)
  have "returned (ParseCSV test_files Atoi10 ParseFloat10 ''mixed.csv'') =
      (map (row_record Atoi10 ParseFloat10)
         (filter (\<lambda>row. length row = 4 \<and> Atoi10 (row ! 2) \<noteq> None \<and>
                           ParseFloat10 (row ! 3) \<noteq> None)
            [[''2023-10-01'', ''Laptop'', ''2'', ''1200.50''],
             [''2023-10-02'', ''Laptop'', ''Two'', ''1200.50''],
             [''2023-10-03'', ''Keyboard'', ''5'', ''INVALID_PRICE''],
             [''2023-10-04'', ''ProductA'', ''5'', ''10.0'', ''EXTRA_FIELD''],
             [''2023-10-05'', ''Mouse'', ''10'', ''25.99'']]),
       None)"
    using opened by (rule ParseCSV_keeps_valid_rows_in_order)
  then show ?thesis
    using opened by (simp add: row_record_def parsers_on_test_fields)
qed

text \<open>
  C6. \<open>ParseCSV\<close> returns an error exactly when the file does not open or one of the
  reads, the header's or a data row's, fails with an error other than end of input; an
  error is always returned with no records, also when rows before the failing read had
  been parsed. The error says which: the path and cause, the header, or the line. A
  reader whose reads all succeed until the end of input gives no error.
\<close>

theorem ParseCSV_fails_on_open_or_read_error_only:
  "(snd (returned (ParseCSV os_Open Atoi ParseFloat filePath)) \<noteq> None \<longleftrightarrow>
      (\<exists>e. os_Open filePath = OpenError e) \<or>
      (\<exists>reader. os_Open filePath = Opened reader \<and> read_fails reader)) \<and>
   (snd (returned (ParseCSV os_Open Atoi ParseFloat filePath)) \<noteq> None \<longrightarrow>
      fst (returned (ParseCSV os_Open Atoi ParseFloat filePath)) = []) \<and>
   (os_Open filePath = OpenError cause \<longrightarrow>
      returned (ParseCSV os_Open Atoi ParseFloat filePath) = ([], Some (ErrOpen filePath cause))) \<and>
   (os_Open filePath = Opened (map Row rows @ ReadError e # rest) \<longrightarrow>
      returned (ParseCSV os_Open Atoi ParseFloat filePath) =
        ([], Some (if rows = [] then ErrHeader e else ErrLine (1 + of_nat (length rows)) e))) \<and>
   (os_Open filePath = Opened (map Row rows) \<longrightarrow>
      snd (returned (ParseCSV os_Open Atoi ParseFloat filePath)) = None)"
proof (intro conjI impI)
  show "snd (returned (ParseCSV os_Open Atoi ParseFloat filePath)) \<noteq> None \<longleftrightarrow>
      (\<exists>e. os_Open filePath = OpenError e) \<or>
      (\<exists>reader. os_Open filePath = Opened reader \<and> read_fails reader)"
    by (rule ParseCSV_error_iff)
next
  assume "snd (returned (ParseCSV os_Open Atoi ParseFloat filePath)) \<noteq> None"
  then show "fst (returned (ParseCSV os_Open Atoi ParseFloat filePath)) = []"
    by (rule ParseCSV_error_no_records)
next
  assume "os_Open filePath = OpenError cause"
  then show "returned (ParseCSV os_Open Atoi ParseFloat filePath) =
      ([], Some (ErrOpen filePath cause))"
    by (simp add: ParseCSV_def)
next
  assume "os_Open filePath = Opened (map Row rows @ ReadError e # rest)"
  then show "returned (ParseCSV os_Open Atoi ParseFloat filePath) =
      ([], Some (if rows = [] then ErrHeader e else ErrLine (1 + of_nat (length rows)) e))"
    by (rule ParseCSV_first_error)
next
  assume "os_Open filePath = Opened (map Row rows)"
  then show "snd (returned (ParseCSV os_Open Atoi ParseFloat filePath)) = None"
    by (simp add: ParseCSV_all_rows)
qed

theorem ParseCSV_fails_on_open_or_read_error_only_witness:
  "test_files ''nonexistent.csv'' = OpenError ''no such file or directory'' \<and>
   returned (ParseCSV test_files Atoi10 ParseFloat10 ''nonexistent.csv'') =
     ([], Some (ErrOpen ''nonexistent.csv'' ''no such file or directory'')) \<and>
   test_files ''broken.csv'' =
     Opened (map Row [header_row, [''2023-10-01'', ''Laptop'', ''2'', ''1200.50'']] @
             ReadError ''bare quote in non-quoted field'' #
             [Row [''2023-10-03'', ''Mouse'', ''10'', ''25.99'']]) \<and>
   read_fails (map Row [header_row, [''2023-10-01'', ''Laptop'', ''2'', ''1200.50'']] @
             ReadError ''bare quote in non-quoted field'' #
             [Row [''2023-10-03'', ''Mouse'', ''10'', ''25.99'']]) \<and>
   returned (ParseCSV test_files Atoi10 ParseFloat10 ''broken.csv'') =
     ([], Some (ErrLine 3 ''bare quote in non-quoted field'')) \<and>
   test_files ''valid.csv'' =
     Opened (map Row [header_row, [''2023-10-01'', ''Laptop'', ''2'', ''1200.50''],
                      [''2023-10-02'', ''Mouse'', ''10'', ''25.99'']]) \<and>
   snd (returned (ParseCSV test_files Atoi10 ParseFloat10 ''valid.csv'')) = None"
proof -
  have f1: "test_files ''nonexistent.csv'' = OpenError ''no such file or directory''"
    by (simp add: test_files_def)
  have f2: "test_files ''broken.csv'' =
     Opened (map Row [header_row, [''2023-10-01'', ''Laptop'', ''2'', ''1200.50'']] @
             ReadError ''bare quote in non-quoted field'' #
             [Row [''2023-10-03'', ''Mouse'', ''10'', ''25.99'']])"
    by (simp add: test_files_def)
  have f3: "test_files ''valid.csv'' =
     Opened (map Row [header_row, [''2023-10-01'', ''Laptop'', ''2'', ''1200.50''],
                      [''2023-10-02'', ''Mouse'', ''10'', ''25.99'']])"
    by (simp add: test_files_def)
  have r: "read_fails (map Row [header_row, [''2023-10-01'', ''Laptop'', ''2'', ''1200.50'']] @
             ReadError ''bare quote in non-quoted field'' #
             [Row [''2023-10-03'', ''Mouse'', ''10'', ''25.99'']])"
    by (simp add: read_fails_def)
  from ParseCSV_fails_on_open_or_read_error_only
         [of test_files Atoi10 ParseFloat10 "''nonexistent.csv''"
            "''no such file or directory''"]
  have a: "returned (ParseCSV test_files Atoi10 ParseFloat10 ''nonexistent.csv'') =
     ([], Some (ErrOpen ''nonexistent.csv'' ''no such file or directory''))"
    using f1 by blast
  from ParseCSV_fails_on_open_or_read_error_only
         [of test_files Atoi10 ParseFloat10 "''broken.csv''" _
            "[header_row, [''2023-10-01'', ''Laptop'', ''2'', ''1200.50'']]"
            "''bare quote in non-quoted field''"
            "[Row [''2023-10-03'', ''Mouse'', ''10'', ''25.99'']]"]
  have b: "returned (ParseCSV test_files Atoi10 ParseFloat10 ''broken.csv'') =
     ([], Some (ErrLine 3 ''bare quote in non-quoted field''))"
    using f2 by simp
  from ParseCSV_fails_on_open_or_read_error_only
         [of test_files Atoi10 ParseFloat10 "''valid.csv''" _
            "[header_row, [''2023-10-01'', ''Laptop'', ''2'', ''1200.50''],
                      [''2023-10-02'', ''Mouse'', ''10'', ''25.99'']]"]
  have c: "snd (returned (ParseCSV test_files Atoi10 ParseFloat10 ''valid.csv'')) = None"
    using f3 by blast
  from f1 a f2 r b f3 c show ?thesis
    by (intro conjI)
qed

text \<open>
  C7. The field \<open>TotalTransactions\<close> of the result of \<open>AnalyzeData\<close> is the length of
  the input sequence, 0 for the empty one. The field is a Go \<open>int\<close>, read here as the
  signed number it stands for; the length of a Go slice always fits an \<open>int\<close>, which
  is the bound on \<open>length records\<close>.
\<close>

theorem AnalyzeData_counts_records:
  assumes "length records < 2 ^ 63"
  shows "sint (TotalTransactions (AnalyzeData ops visit records)) = int (length records)"
  using assms by (simp add: AnalyzeData_TotalTransactions sint_of_nat_small)

theorem AnalyzeData_counts_records_witness:
  "length normal_data < 2 ^ 63 \<and>
   sint (TotalTransactions (AnalyzeData xops [''ProductB'', ''ProductA''] normal_data)) = 3"
  using AnalyzeData_counts_records [of normal_data xops "[''ProductB'', ''ProductA'']"]
  by (simp add: normal_data_def)

text \<open>
  C8. A data row with four fields and an integer third field becomes a record carrying
  whatever value the floating-point parser returns for the fourth field, not-a-number
  and the infinities included: no check is made on the value. The row is skipped only
  when the parser returns an error. The rows before and after it are treated as if the
  row were not there.
\<close>

theorem ParseCSV_keeps_any_parsed_price:
  assumes "os_Open filePath = Opened (map Row (header # before @ row # after))"
    and "length row = 4" and "Atoi (row ! 2) = Some quantity"
  shows "returned (ParseCSV os_Open Atoi ParseFloat filePath) =
           (valid_records Atoi ParseFloat before @
            (case ParseFloat (row ! 3) of
               None \<Rightarrow> []
             | Some price \<Rightarrow>
                 [\<lparr>Date = row ! 0, Product = row ! 1, Quantity = quantity, Price = price\<rparr>]) @
            valid_records Atoi ParseFloat after,
            None)"
  using ParseCSV_all_rows [of os_Open filePath "header # before @ row # after" Atoi ParseFloat]
    assms
  by (simp add: valid_records_append valid_records_Cons split: option.split)

theorem ParseCSV_keeps_any_parsed_price_witness:
  "test_files ''special.csv'' =
     Opened (map Row (header_row # [] @ [''2023-10-01'', ''Laptop'', ''2'', ''NaN''] #
                      [[''2023-10-02'', ''Mouse'', ''10'', ''Inf'']])) \<and>
   length [''2023-10-01'', ''Laptop'', ''2'', ''NaN''] = 4 \<and>
   Atoi10 ([''2023-10-01'', ''Laptop'', ''2'', ''NaN''] ! 2) = Some 2 \<and>
   ParseFloat10 ''NaN'' = Some NaN \<and> ParseFloat10 ''Inf'' = Some (Inf False) \<and>
   returned (ParseCSV test_files Atoi10 ParseFloat10 ''special.csv'') =
     ([\<lparr>Date = ''2023-10-01'', Product = ''Laptop'', Quantity = 2, Price = NaN\<rparr>,
       \<lparr>Date = ''2023-10-02'', Product = ''Mouse'', Quantity = 10, Price = Inf False\<rparr>],
      None)"
proof -
  have opened: "test_files ''special.csv'' =
     Opened (map Row (header_row # [] @ [''2023-10-01'', ''Laptop'', ''2'', ''NaN''] #
                      [[''2023-10-02'', ''Mouse'', ''10'', ''Inf'']]))"
    by (simp add: test_files_def)
  have len: "length [''2023-10-01'', ''Laptop'', ''2'', ''NaN''] = 4"
    by simp
  have qty: "Atoi10 ([''2023-10-01'', ''Laptop'', ''2'', ''NaN''] ! 2) = Some 2"
    by (simp add: parsers_on_test_fields)
  have rest: "valid_records Atoi10 ParseFloat10 [[''2023-10-02'', ''Mouse'', ''10'', ''Inf'']] =
      [\<lparr>Date = ''2023-10-02'', Product = ''Mouse'', Quantity = 10, Price = Inf False\<rparr>]"
    by (simp add: valid_records_def row_valid_def row_record_def parsers_on_test_fields)
  have none: "valid_records Atoi10 ParseFloat10 [] = []"
    by (simp add: valid_records_def)
  show ?thesis
    using ParseCSV_keeps_any_parsed_price
            [of test_files "''special.csv''" header_row "[]"
               "[''2023-10-01'', ''Laptop'', ''2'', ''NaN'']"
               "[[''2023-10-02'', ''Mouse'', ''10'', ''Inf'']]" Atoi10 2 ParseFloat10]
          opened len qty
    by (simp add: rest none parsers_on_test_fields)
qed

text \<open>
  C9. Parsing an empty file, where already the read of the header meets the end of
  input, or a file with a header line only, returns the empty sequence and no error,
  and prints nothing.
\<close>

theorem ParseCSV_tolerates_missing_rows:
  assumes "os_Open filePath = Opened [] \<or> os_Open filePath = Opened [Row header]"
  shows "ParseCSV os_Open Atoi ParseFloat filePath = \<lparr>returned = ([], None), printed = []\<rparr>"
  using assms by (auto simp: ParseCSV_def)

theorem ParseCSV_tolerates_missing_rows_witness:
  "test_files ''empty.csv'' = Opened [] \<and>
   ParseCSV test_files Atoi10 ParseFloat10 ''empty.csv'' = \<lparr>returned = ([], None), printed = []\<rparr> \<and>
   test_files ''header_only.csv'' = Opened [Row header_row] \<and>
   ParseCSV test_files Atoi10 ParseFloat10 ''header_only.csv'' =
     \<lparr>returned = ([], None), printed = []\<rparr>"
proof -
  have e: "test_files ''empty.csv'' = Opened []"
    and h: "test_files ''header_only.csv'' = Opened [Row header_row]"
    by (simp_all add: test_files_def)
  show ?thesis
    using ParseCSV_tolerates_missing_rows [of test_files "''empty.csv''" header_row Atoi10 ParseFloat10]
      ParseCSV_tolerates_missing_rows [of test_files "''header_only.csv''" header_row Atoi10 ParseFloat10]
      e h
    by simp
qed

text \<open>
  C10, as amended. For every input in which every product's summed quantity lies in the
  range of \<open>int\<close>, and every order in which the second loop may visit the map: if
  at least one product's summed quantity is strictly positive, then
  \<open>MaxQuantitySoldUnits\<close> is strictly positive, \<open>MostPopularProduct\<close> is a product
  key of the input and its summed quantity is \<open>MaxQuantitySoldUnits\<close>; if none is,
  \<open>MaxQuantitySoldUnits\<close> is 0 and \<open>MostPopularProduct\<close> is the empty string. For
  every input, the same holds of the totals as the program forms them, wrapped around
  at 64 bits.
\<close>

theorem most_popular_positive_or_empty:
  assumes "range_order (snd (aggregate ops records)) visit"
  shows "((\<forall>k\<in>product_keys records. fits_int (exact_quantity records k)) \<longrightarrow>
            ((\<exists>k\<in>product_keys records. 0 < exact_quantity records k) \<longrightarrow>
               0 < sint (MaxQuantitySoldUnits (AnalyzeData ops visit records)) \<and>
               MostPopularProduct (AnalyzeData ops visit records) \<in> product_keys records \<and>
               exact_quantity records (MostPopularProduct (AnalyzeData ops visit records)) =
                 sint (MaxQuantitySoldUnits (AnalyzeData ops visit records))) \<and>
            (\<not> (\<exists>k\<in>product_keys records. 0 < exact_quantity records k) \<longrightarrow>
               MaxQuantitySoldUnits (AnalyzeData ops visit records) = 0 \<and>
               MostPopularProduct (AnalyzeData ops visit records) = [])) \<and>
         ((\<exists>k\<in>product_keys records. 0 <s summed_quantity records k) \<longrightarrow>
            0 <s MaxQuantitySoldUnits (AnalyzeData ops visit records) \<and>
            MostPopularProduct (AnalyzeData ops visit records) \<in> product_keys records \<and>
            summed_quantity records (MostPopularProduct (AnalyzeData ops visit records)) =
              MaxQuantitySoldUnits (AnalyzeData ops visit records)) \<and>
         (\<not> (\<exists>k\<in>product_keys records. 0 <s summed_quantity records k) \<longrightarrow>
            MaxQuantitySoldUnits (AnalyzeData ops visit records) = 0 \<and>
            MostPopularProduct (AnalyzeData ops visit records) = [])"
proof -
  let ?r = "AnalyzeData ops visit records"
  have pos: "0 <s MaxQuantitySoldUnits ?r \<and> MostPopularProduct ?r \<in> product_keys records \<and>
      summed_quantity records (MostPopularProduct ?r) = MaxQuantitySoldUnits ?r"
    if "\<exists>k\<in>product_keys records. 0 <s summed_quantity records k"
  proof -
    from that obtain k where "k \<in> product_keys records" and "0 <s summed_quantity records k" ..
    with assms have "0 <s MaxQuantitySoldUnits ?r"
      by (rule AnalyzeData_max_positive)
    then show ?thesis
      using AnalyzeData_winner [of ops visit records] by simp
  qed
  have none: "MaxQuantitySoldUnits ?r = 0 \<and> MostPopularProduct ?r = []"
    if "\<not> (\<exists>k\<in>product_keys records. 0 <s summed_quantity records k)"
  proof -
    from assms that have "MaxQuantitySoldUnits ?r = 0"
      by (rule AnalyzeData_max_zero)
    then show ?thesis
      by (simp add: AnalyzeData_empty_key_of_zero)
  qed
  have exact: "((\<exists>k\<in>product_keys records. 0 < exact_quantity records k) \<longrightarrow>
               0 < sint (MaxQuantitySoldUnits ?r) \<and>
               MostPopularProduct ?r \<in> product_keys records \<and>
               exact_quantity records (MostPopularProduct ?r) = sint (MaxQuantitySoldUnits ?r)) \<and>
            (\<not> (\<exists>k\<in>product_keys records. 0 < exact_quantity records k) \<longrightarrow>
               MaxQuantitySoldUnits ?r = 0 \<and> MostPopularProduct ?r = [])"
    if fits: "\<forall>k\<in>product_keys records. fits_int (exact_quantity records k)"
  proof -
    have same: "sint (summed_quantity records k) = exact_quantity records k"
      if "k \<in> product_keys records" for k
      using fits that by (simp add: summed_quantity_fits)
    then have iff: "(\<exists>k\<in>product_keys records. 0 <s summed_quantity records k) \<longleftrightarrow>
        (\<exists>k\<in>product_keys records. 0 < exact_quantity records k)"
      by (auto simp: word_sless_alt)
    show ?thesis
    proof (intro conjI impI)
      assume "\<exists>k\<in>product_keys records. 0 < exact_quantity records k"
      then have p: "0 <s MaxQuantitySoldUnits ?r \<and> MostPopularProduct ?r \<in> product_keys records \<and>
          summed_quantity records (MostPopularProduct ?r) = MaxQuantitySoldUnits ?r"
        using pos iff by blast
      then show "0 < sint (MaxQuantitySoldUnits ?r)"
        by (simp add: word_sless_alt)
      from p show "MostPopularProduct ?r \<in> product_keys records"
        by simp
      from p same [of "MostPopularProduct ?r"]
      show "exact_quantity records (MostPopularProduct ?r) = sint (MaxQuantitySoldUnits ?r)"
        by simp
    next
      assume n: "\<not> (\<exists>k\<in>product_keys records. 0 < exact_quantity records k)"
      then show "MaxQuantitySoldUnits ?r = 0" and "MostPopularProduct ?r = []"
        using none iff by blast+
    qed
  qed
  from pos none exact show ?thesis
    by blast
qed

theorem most_popular_positive_or_empty_witness:
  "range_order (snd (aggregate xops normal_data)) [''ProductB'', ''ProductA''] \<and>
   list_all (\<lambda>k. fits_int (exact_quantity normal_data k)) [''ProductA'', ''ProductB''] \<and>
   ''ProductA'' \<in> product_keys normal_data \<and> 0 < exact_quantity normal_data ''ProductA'' \<and>
   0 < sint (MaxQuantitySoldUnits (AnalyzeData xops [''ProductB'', ''ProductA''] normal_data)) \<and>
   MostPopularProduct (AnalyzeData xops [''ProductB'', ''ProductA''] normal_data)
     \<in> product_keys normal_data \<and>
   exact_quantity normal_data
     (MostPopularProduct (AnalyzeData xops [''ProductB'', ''ProductA''] normal_data)) =
   sint (MaxQuantitySoldUnits (AnalyzeData xops [''ProductB'', ''ProductA''] normal_data)) \<and>
   range_order (snd (aggregate xops refund_data)) [''ProductA''] \<and>
   fits_int (exact_quantity refund_data ''ProductA'') \<and>
   \<not> 0 < exact_quantity refund_data ''ProductA'' \<and>
   MaxQuantitySoldUnits (AnalyzeData xops [''ProductA''] refund_data) = 0 \<and>
   MostPopularProduct (AnalyzeData xops [''ProductA''] refund_data) = []"
proof -
  have o1: "range_order (snd (aggregate xops normal_data)) [''ProductB'', ''ProductA'']"
    by (rule range_order_normal_data)
  have f1: "\<forall>k\<in>product_keys normal_data. fits_int (exact_quantity normal_data k)"
    by (simp add: summed_quantity_normal_data exact_quantity_normal_data fits_int_def)
  have p1: "\<exists>k\<in>product_keys normal_data. 0 < exact_quantity normal_data k"
    by (simp add: summed_quantity_normal_data exact_quantity_normal_data)
  have o2: "range_order (snd (aggregate xops refund_data)) [''ProductA'']"
    by (simp add: range_order_keys summed_quantity_refund_data)
  have f2: "\<forall>k\<in>product_keys refund_data. fits_int (exact_quantity refund_data k)"
    by (simp add: summed_quantity_refund_data exact_quantity_refund_data fits_int_def)
  have p2: "\<not> (\<exists>k\<in>product_keys refund_data. 0 < exact_quantity refund_data k)"
    by (simp add: summed_quantity_refund_data exact_quantity_refund_data)
  have g1: "0 < sint (MaxQuantitySoldUnits (AnalyzeData xops [''ProductB'', ''ProductA''] normal_data)) \<and>
      MostPopularProduct (AnalyzeData xops [''ProductB'', ''ProductA''] normal_data)
        \<in> product_keys normal_data \<and>
      exact_quantity normal_data
        (MostPopularProduct (AnalyzeData xops [''ProductB'', ''ProductA''] normal_data)) =
      sint (MaxQuantitySoldUnits (AnalyzeData xops [''ProductB'', ''ProductA''] normal_data))"
    using most_popular_positive_or_empty [OF o1] f1 p1 by blast
  have g2: "MaxQuantitySoldUnits (AnalyzeData xops [''ProductA''] refund_data) = 0 \<and>
      MostPopularProduct (AnalyzeData xops [''ProductA''] refund_data) = []"
    using most_popular_positive_or_empty [OF o2] f2 p2 by blast
  have h: "list_all (\<lambda>k. fits_int (exact_quantity normal_data k)) [''ProductA'', ''ProductB'']"
    "''ProductA'' \<in> product_keys normal_data" "0 < exact_quantity normal_data ''ProductA''"
    "fits_int (exact_quantity refund_data ''ProductA'')"
    "\<not> 0 < exact_quantity refund_data ''ProductA''"
    by (simp_all add: summed_quantity_normal_data exact_quantity_normal_data
        exact_quantity_refund_data fits_int_def)
  from o1 h(1,2,3) g1 o2 h(4,5) g2 show ?thesis
    by (intro conjI) simp_all
qed

text \<open>
  C10 as stated, with the summed quantity as the sum of the quantities, does not hold:
  for two records of one product with quantities \<open>2^63 - 1\<close> and 1 the sum is
  strictly positive, but the program's total has wrapped around to a negative number,
  and the result reports 0 and the empty string.
\<close>

theorem most_popular_overflow_counterexample:
  "range_order (snd (aggregate xops overflow_data)) [''ProductA''] \<and>
   ''ProductA'' \<in> product_keys overflow_data \<and>
   0 < exact_quantity overflow_data ''ProductA'' \<and>
   MaxQuantitySoldUnits (AnalyzeData xops [''ProductA''] overflow_data) = 0 \<and>
   MostPopularProduct (AnalyzeData xops [''ProductA''] overflow_data) = []"
proof -
  have o: "range_order (snd (aggregate xops overflow_data)) [''ProductA'']"
    by (simp add: range_order_keys overflow_facts)
  have "\<not> (\<exists>k\<in>product_keys overflow_data. 0 <s summed_quantity overflow_data k)"
    by (simp add: overflow_facts word_sless_alt)
  with o have z: "MaxQuantitySoldUnits (AnalyzeData xops [''ProductA''] overflow_data) = 0"
    by (rule AnalyzeData_max_zero)
  then have "MostPopularProduct (AnalyzeData xops [''ProductA''] overflow_data) = []"
    by (rule AnalyzeData_empty_key_of_zero)
  with o z show ?thesis
    by (simp add: overflow_facts)
qed

end
